theory Spec2Isabelle
  imports Complex_Main
begin

section \<open>JavaScript numbers\<close>

text \<open>
  Every number in the analyzer is a JavaScript number.  The model keeps the special values
  of that type apart, since the code divides by caller-supplied values and reads arrays
  at computed indices: \<open>NaN\<close>, the two infinities and the negative zero are
  constructors of their own, and a finite value (the positive zero included) is a real.
  Finite arithmetic is exact: rounding, overflow and underflow of the 64-bit format are
  not modelled.  \<open>Fin 0\<close> is the positive zero; no operation below builds \<open>Fin\<close> of
  a negative zero.
\<close>

datatype jsnum = Fin real | NegZero | PosInf | NegInf | NaN

fun is_inf :: "jsnum \<Rightarrow> bool" where
  "is_inf PosInf = True"
| "is_inf NegInf = True"
| "is_inf _ = False"

fun fin_val :: "jsnum \<Rightarrow> real" where
  "fin_val (Fin x) = x"
| "fin_val _ = 0"

fun is_zero :: "jsnum \<Rightarrow> bool" where
  "is_zero (Fin x) = (x = 0)"
| "is_zero NegZero = True"
| "is_zero _ = False"

text \<open>The sign bit.\<close>

fun negative :: "jsnum \<Rightarrow> bool" where
  "negative (Fin x) = (x < 0)"
| "negative NegZero = True"
| "negative NegInf = True"
| "negative _ = False"

definition signed_zero :: "bool \<Rightarrow> jsnum" where
  "signed_zero neg = (if neg then NegZero else Fin 0)"

definition signed_inf :: "bool \<Rightarrow> jsnum" where
  "signed_inf neg = (if neg then NegInf else PosInf)"

text \<open>\<^verbatim>\<open>a + b\<close>: opposite infinities give \<open>NaN\<close>; a zero sum is negative only for \<open>-0 + -0\<close>.\<close>

fun js_add :: "jsnum \<Rightarrow> jsnum \<Rightarrow> jsnum" where
  "js_add NaN _ = NaN"
| "js_add _ NaN = NaN"
| "js_add PosInf NegInf = NaN"
| "js_add NegInf PosInf = NaN"
| "js_add PosInf _ = PosInf"
| "js_add _ PosInf = PosInf"
| "js_add NegInf _ = NegInf"
| "js_add _ NegInf = NegInf"
| "js_add NegZero y = y"
| "js_add x NegZero = x"
| "js_add (Fin x) (Fin y) = Fin (x + y)"

fun js_neg :: "jsnum \<Rightarrow> jsnum" where
  "js_neg (Fin x) = (if x = 0 then NegZero else Fin (- x))"
| "js_neg NegZero = Fin 0"
| "js_neg PosInf = NegInf"
| "js_neg NegInf = PosInf"
| "js_neg NaN = NaN"

text \<open>\<^verbatim>\<open>a - b\<close> is \<^verbatim>\<open>a + (-b)\<close>.\<close>

definition js_sub :: "jsnum \<Rightarrow> jsnum \<Rightarrow> jsnum" where
  "js_sub x y = js_add x (js_neg y)"

text \<open>\<^verbatim>\<open>a * b\<close>: infinity times zero is \<open>NaN\<close>; the sign of the result is the exclusive or
  of the signs.\<close>

definition js_mul :: "jsnum \<Rightarrow> jsnum \<Rightarrow> jsnum" where
  "js_mul x y =
     (if x = NaN \<or> y = NaN then NaN
      else if (is_inf x \<and> is_zero y) \<or> (is_zero x \<and> is_inf y) then NaN
      else if is_inf x \<or> is_inf y then signed_inf (negative x \<noteq> negative y)
      else if fin_val x * fin_val y = 0 then signed_zero (negative x \<noteq> negative y)
      else Fin (fin_val x * fin_val y))"

text \<open>\<^verbatim>\<open>a / b\<close>: never raises.  \<open>0 / 0\<close> and \<open>\<infinity> / \<infinity>\<close> are \<open>NaN\<close>, a non-zero value over a
  zero is an infinity, a finite value over an infinity is a zero.\<close>

definition js_div :: "jsnum \<Rightarrow> jsnum \<Rightarrow> jsnum" where
  "js_div x y =
     (if x = NaN \<or> y = NaN then NaN
      else if (is_inf x \<and> is_inf y) \<or> (is_zero x \<and> is_zero y) then NaN
      else if is_inf x \<or> is_zero y then signed_inf (negative x \<noteq> negative y)
      else if is_inf y \<or> is_zero x then signed_zero (negative x \<noteq> negative y)
      else Fin (fin_val x / fin_val y))"

text \<open>\<^verbatim>\<open>a % b\<close>: the remainder of the truncated quotient, with the sign of the dividend.\<close>

definition js_mod :: "jsnum \<Rightarrow> jsnum \<Rightarrow> jsnum" where
  "js_mod x y =
     (if x = NaN \<or> y = NaN \<or> is_inf x \<or> is_zero y then NaN
      else if is_inf y \<or> is_zero x then x
      else let q = fin_val x / fin_val y;
               t = (if 0 \<le> q then \<lfloor>q\<rfloor> else \<lceil>q\<rceil>);
               m = fin_val x - fin_val y * of_int t
           in if m = 0 then signed_zero (negative x) else Fin m)"

text \<open>\<^verbatim>\<open>a < b\<close>: false whenever an operand is \<open>NaN\<close>; the two zeros are equal.\<close>

fun js_lt :: "jsnum \<Rightarrow> jsnum \<Rightarrow> bool" where
  "js_lt NaN _ = False"
| "js_lt _ NaN = False"
| "js_lt PosInf _ = False"
| "js_lt _ PosInf = True"
| "js_lt _ NegInf = False"
| "js_lt NegInf _ = True"
| "js_lt x y = (fin_val x < fin_val y)"

definition js_gt :: "jsnum \<Rightarrow> jsnum \<Rightarrow> bool" where
  "js_gt x y = js_lt y x"

text \<open>\<^verbatim>\<open>Math.floor\<close> and \<^verbatim>\<open>Math.ceil\<close> keep zeros, infinities and \<open>NaN\<close>;
  \<^verbatim>\<open>Math.ceil\<close> of a value strictly between \<open>-1\<close> and \<open>0\<close> is the negative zero.\<close>

fun Math_floor :: "jsnum \<Rightarrow> jsnum" where
  "Math_floor (Fin x) = Fin (of_int \<lfloor>x\<rfloor>)"
| "Math_floor x = x"

fun Math_ceil :: "jsnum \<Rightarrow> jsnum" where
  "Math_ceil (Fin x) = (if - 1 < x \<and> x < 0 then NegZero else Fin (of_int \<lceil>x\<rceil>))"
| "Math_ceil x = x"

text \<open>
  The array index a number denotes when it is used as a property key: a non-negative
  integer, or the negative zero (whose key is \<^verbatim>\<open>"0"\<close>).  Every other number names
  no element.
\<close>

fun array_index :: "jsnum \<Rightarrow> nat option" where
  "array_index (Fin x) = (if 0 \<le> x \<and> of_int \<lfloor>x\<rfloor> = x then Some (nat \<lfloor>x\<rfloor>) else None)"
| "array_index NegZero = Some 0"
| "array_index _ = None"

text \<open>\<^verbatim>\<open>xs[i]\<close> on an array of numbers: \<open>None\<close> is \<^verbatim>\<open>undefined\<close>.\<close>

definition array_get :: "jsnum list \<Rightarrow> jsnum \<Rightarrow> jsnum option" where
  "array_get xs i =
     (case array_index i of
        None \<Rightarrow> None
      | Some k \<Rightarrow> if k < length xs then Some (xs ! k) else None)"

text \<open>\<^verbatim>\<open>xs[i] = v\<close> on a typed array: a write outside the array is ignored.\<close>

definition typed_array_set :: "jsnum list \<Rightarrow> jsnum \<Rightarrow> jsnum \<Rightarrow> jsnum list" where
  "typed_array_set xs i v =
     (case array_index i of
        None \<Rightarrow> xs
      | Some k \<Rightarrow> xs[k := v])"

text \<open>\<^verbatim>\<open>sum += x\<close> where \<open>x\<close> may be \<^verbatim>\<open>undefined\<close>, which converts to \<open>NaN\<close>.\<close>

definition add_assign :: "jsnum \<Rightarrow> jsnum option \<Rightarrow> jsnum" where
  "add_assign acc x = (case x of None \<Rightarrow> NaN | Some v \<Rightarrow> js_add acc v)"

section \<open>Outcomes of a call\<close>

text \<open>
  A call returns a value, throws, or does not return: \<open>None\<close> is a call that runs
  forever, \<open>Some (Inl e)\<close> one that throws \<open>e\<close>, \<open>Some (Inr v)\<close> one that returns \<open>v\<close>.
\<close>

datatype error = TypeError

type_synonym 'a outcome = "(error + 'a) option"

definition returns :: "'a \<Rightarrow> 'a outcome" where
  "returns v = Some (Inr v)"

definition throws :: "error \<Rightarrow> 'a outcome" where
  "throws e = Some (Inl e)"

definition and_then :: "'a outcome \<Rightarrow> ('a \<Rightarrow> 'b outcome) \<Rightarrow> 'b outcome" where
  "and_then m f =
     (case m of
        None \<Rightarrow> None
      | Some (Inl e) \<Rightarrow> Some (Inl e)
      | Some (Inr v) \<Rightarrow> f v)"

section \<open>The band table\<close>

text \<open>\<^verbatim>\<open>FrequencyBands\<close>: the fields \<^verbatim>\<open>min\<close> and \<^verbatim>\<open>max\<close> are in Hz; the colour is
  \<^verbatim>\<open>{r, g, b}\<close>.\<close>

record frequency_band =
  band_name :: string
  band_min :: jsnum
  band_max :: jsnum
  band_color :: "nat \<times> nat \<times> nat"

definition FrequencyBands :: "(string \<times> frequency_band) list" where
  "FrequencyBands =
     [(''SUB_BASS'', \<lparr>band_name = ''Sub Bass'', band_min = Fin 20, band_max = Fin 60,
         band_color = (128, 0, 255)\<rparr>),
      (''BASS'', \<lparr>band_name = ''Bass'', band_min = Fin 60, band_max = Fin 250,
         band_color = (255, 0, 100)\<rparr>),
      (''DRUMS_LOW'', \<lparr>band_name = ''Drums Low'', band_min = Fin 60, band_max = Fin 200,
         band_color = (255, 50, 50)\<rparr>),
      (''DRUMS_MID'', \<lparr>band_name = ''Drums Mid'', band_min = Fin 200, band_max = Fin 2000,
         band_color = (255, 100, 50)\<rparr>),
      (''DRUMS_HIGH'', \<lparr>band_name = ''Drums High'', band_min = Fin 2000, band_max = Fin 8000,
         band_color = (255, 200, 50)\<rparr>),
      (''VOCALS_LOW'', \<lparr>band_name = ''Vocals Low'', band_min = Fin 80, band_max = Fin 300,
         band_color = (50, 200, 255)\<rparr>),
      (''VOCALS_MID'', \<lparr>band_name = ''Vocals Mid'', band_min = Fin 300, band_max = Fin 2000,
         band_color = (100, 150, 255)\<rparr>),
      (''VOCALS_HIGH'', \<lparr>band_name = ''Vocals High'', band_min = Fin 2000, band_max = Fin 8000,
         band_color = (150, 100, 255)\<rparr>),
      (''INSTRUMENTS_LOW'', \<lparr>band_name = ''Instruments Low'', band_min = Fin 80,
         band_max = Fin 400, band_color = (50, 255, 100)\<rparr>),
      (''INSTRUMENTS_MID'', \<lparr>band_name = ''Instruments Mid'', band_min = Fin 400,
         band_max = Fin 2000, band_color = (100, 255, 150)\<rparr>),
      (''INSTRUMENTS_HIGH'', \<lparr>band_name = ''Instruments High'', band_min = Fin 2000,
         band_max = Fin 6000, band_color = (150, 255, 200)\<rparr>),
      (''AIR'', \<lparr>band_name = ''Air'', band_min = Fin 8000, band_max = Fin 20000,
         band_color = (255, 255, 255)\<rparr>)]"

text \<open>\<^verbatim>\<open>VisualizerGroups\<close>: the member bands of a category and their weights.\<close>

record visualizer_group =
  group_name :: string
  bands :: "string list"
  weights :: "jsnum list"
  primaryColor :: "nat \<times> nat \<times> nat"
  accentColor :: "nat \<times> nat \<times> nat"

definition VisualizerGroups_DRUMS :: visualizer_group where
  "VisualizerGroups_DRUMS =
     \<lparr>group_name = ''Drums'', bands = [''DRUMS_LOW'', ''DRUMS_MID'', ''DRUMS_HIGH''],
      weights = [Fin 0.5, Fin 0.3, Fin 0.2],
      primaryColor = (255, 80, 50), accentColor = (255, 150, 100)\<rparr>"

definition VisualizerGroups_VOCALS :: visualizer_group where
  "VisualizerGroups_VOCALS =
     \<lparr>group_name = ''Vocals'', bands = [''VOCALS_LOW'', ''VOCALS_MID'', ''VOCALS_HIGH''],
      weights = [Fin 0.2, Fin 0.5, Fin 0.3],
      primaryColor = (100, 150, 255), accentColor = (180, 200, 255)\<rparr>"

definition VisualizerGroups_BASS :: visualizer_group where
  "VisualizerGroups_BASS =
     \<lparr>group_name = ''Bass'', bands = [''SUB_BASS'', ''BASS''],
      weights = [Fin 0.4, Fin 0.6],
      primaryColor = (200, 0, 200), accentColor = (255, 100, 255)\<rparr>"

definition VisualizerGroups_HIGHS :: visualizer_group where
  "VisualizerGroups_HIGHS =
     \<lparr>group_name = ''Highs'', bands = [''INSTRUMENTS_HIGH'', ''AIR''],
      weights = [Fin 0.6, Fin 0.4],
      primaryColor = (100, 255, 200), accentColor = (200, 255, 255)\<rparr>"

section \<open>The bin mapper\<close>

text \<open>\<^verbatim>\<open>{start, end}\<close>, as \<^verbatim>\<open>getBinRange\<close> builds it.\<close>

record bin_range =
  range_start :: jsnum
  range_end :: jsnum

text \<open>
  \<^verbatim>\<open>getBinRange(band, sampleRate, fftSize)\<close>.  The body is two divisions, a floor and a
  ceiling, none of which raises, and it has no \<^verbatim>\<open>throw\<close>: every call returns.
\<close>

definition getBinRange :: "frequency_band \<Rightarrow> jsnum \<Rightarrow> jsnum \<Rightarrow> bin_range outcome" where
  "getBinRange band sampleRate fftSize =
     (let binFrequency = js_div sampleRate fftSize
      in returns \<lparr>range_start = Math_floor (js_div (band_min band) binFrequency),
                  range_end = Math_ceil (js_div (band_max band) binFrequency)\<rparr>)"

text \<open>\<^verbatim>\<open>calculateAllBinRanges(sampleRate, fftSize)\<close>: the loop over the entries of the band
  table, filling a \<^verbatim>\<open>Map\<close> from band key to range.\<close>

fun calculateAllBinRanges_loop ::
  "(string \<times> frequency_band) list \<Rightarrow> jsnum \<Rightarrow> jsnum \<Rightarrow> (string \<rightharpoonup> bin_range)
     \<Rightarrow> (string \<rightharpoonup> bin_range) outcome" where
  "calculateAllBinRanges_loop [] sampleRate fftSize ranges = returns ranges"
| "calculateAllBinRanges_loop ((name, band) # entries) sampleRate fftSize ranges =
     and_then (getBinRange band sampleRate fftSize)
       (\<lambda>rng. calculateAllBinRanges_loop entries sampleRate fftSize (ranges(name \<mapsto> rng)))"

definition calculateAllBinRanges :: "jsnum \<Rightarrow> jsnum \<Rightarrow> (string \<rightharpoonup> bin_range) outcome" where
  "calculateAllBinRanges sampleRate fftSize =
     calculateAllBinRanges_loop FrequencyBands sampleRate fftSize Map.empty"

section \<open>The analyzer\<close>

text \<open>The closed set of category keys \<^verbatim>\<open>'drums'\<close>, \<^verbatim>\<open>'vocals'\<close>, \<^verbatim>\<open>'bass'\<close>, \<^verbatim>\<open>'highs'\<close>.\<close>

datatype category = Drums | Vocals | Bass | Highs

text \<open>\<^verbatim>\<open>energyCache\<close>: the field \<open>drums_low\<close> is \<^verbatim>\<open>energyCache.drums.low\<close>, and so on.\<close>

record energy_cache =
  drums_low :: jsnum
  drums_mid :: jsnum
  drums_high :: jsnum
  drums_combined :: jsnum
  vocals_low :: jsnum
  vocals_mid :: jsnum
  vocals_high :: jsnum
  vocals_combined :: jsnum
  bass_sub :: jsnum
  bass_main :: jsnum
  bass_combined :: jsnum
  highs_instruments :: jsnum
  highs_air :: jsnum
  highs_combined :: jsnum

text \<open>An entry of \<^verbatim>\<open>peaks\<close>: \<^verbatim>\<open>{value, isPeak}\<close>.\<close>

record peak =
  peak_value :: jsnum
  isPeak :: bool

text \<open>
  The fields of an \<^verbatim>\<open>AudioAnalyzer\<close>.  \<open>fft\<close> and \<open>mic\<close> say whether the field holds an
  object (\<open>True\<close>) or \<^verbatim>\<open>null\<close>; the objects themselves belong to the audio library.
  \<open>binRanges\<close> is \<^verbatim>\<open>null\<close> (\<open>None\<close>) or the \<^verbatim>\<open>Map\<close> from band key to range.
  \<open>energyHistory_drums\<close> and \<open>energyHistory_bass\<close> are the two typed arrays of
  \<^verbatim>\<open>energyHistory\<close>.
\<close>

record analyzer =
  fftSize :: jsnum
  smoothing :: jsnum
  fft :: bool
  mic :: bool
  isInitialized :: bool
  isListening :: bool
  binRanges :: "(string \<rightharpoonup> bin_range) option"
  energyCache :: energy_cache
  smoothedEnergy :: "category \<Rightarrow> jsnum"
  peakThreshold :: jsnum
  peakDecay :: jsnum
  peaks :: "category \<Rightarrow> peak"
  historySize :: jsnum
  historyIndex :: jsnum
  energyHistory_drums :: "jsnum list"
  energyHistory_bass :: "jsnum list"

text \<open>\<^verbatim>\<open>constructor(fftSize = 1024, smoothing = 0.8)\<close>.\<close>

definition AudioAnalyzer :: "jsnum \<Rightarrow> jsnum \<Rightarrow> analyzer" where
  "AudioAnalyzer fftSize0 smoothing0 =
     \<lparr>fftSize = fftSize0,
      smoothing = smoothing0,
      fft = False,
      mic = False,
      isInitialized = False,
      isListening = False,
      binRanges = None,
      energyCache =
        \<lparr>drums_low = Fin 0, drums_mid = Fin 0, drums_high = Fin 0, drums_combined = Fin 0,
         vocals_low = Fin 0, vocals_mid = Fin 0, vocals_high = Fin 0, vocals_combined = Fin 0,
         bass_sub = Fin 0, bass_main = Fin 0, bass_combined = Fin 0,
         highs_instruments = Fin 0, highs_air = Fin 0, highs_combined = Fin 0\<rparr>,
      smoothedEnergy = (\<lambda>cat. Fin 0),
      peakThreshold = Fin 0.7,
      peakDecay = Fin 0.95,
      peaks = (\<lambda>cat. \<lparr>peak_value = Fin 0, isPeak = False\<rparr>),
      historySize = Fin 43,
      historyIndex = Fin 0,
      energyHistory_drums = replicate 43 (Fin 0),
      energyHistory_bass = replicate 43 (Fin 0)\<rparr>"

subsection \<open>Lifecycle\<close>

text \<open>
  What the audio library does during \<^verbatim>\<open>init\<close>: one of its three calls throws, or the
  audio context reports a sample rate.
\<close>

datatype audio_env = FFT_throws | AudioIn_throws | AudioContext_throws | SampleRate jsnum

text \<open>\<^verbatim>\<open>init()\<close>: the assignments made before a throw stay; the \<^verbatim>\<open>catch\<close> returns
  \<^verbatim>\<open>false\<close>.\<close>

definition init :: "analyzer \<Rightarrow> audio_env \<Rightarrow> (analyzer \<times> bool) outcome" where
  "init a env =
     (if isInitialized a then returns (a, True)
      else case env of
        FFT_throws \<Rightarrow> returns (a, False)
      | AudioIn_throws \<Rightarrow> returns (a\<lparr>fft := True\<rparr>, False)
      | AudioContext_throws \<Rightarrow> returns (a\<lparr>fft := True, mic := True\<rparr>, False)
      | SampleRate sampleRate \<Rightarrow>
          (case calculateAllBinRanges sampleRate (fftSize a) of
             None \<Rightarrow> None
           | Some (Inl e) \<Rightarrow> returns (a\<lparr>fft := True, mic := True\<rparr>, False)
           | Some (Inr ranges) \<Rightarrow>
               returns (a\<lparr>fft := True, mic := True, binRanges := Some ranges,
                          isInitialized := True\<rparr>, True)))"

text \<open>\<^verbatim>\<open>startListening()\<close>; \<open>micStarts\<close> says whether \<^verbatim>\<open>mic.start()\<close> and
  \<^verbatim>\<open>fft.setInput\<close> succeed.  A \<^verbatim>\<open>null\<close> \<open>mic\<close> or \<open>fft\<close> raises inside the \<^verbatim>\<open>try\<close>
  and is caught.\<close>

definition startListening :: "analyzer \<Rightarrow> audio_env \<Rightarrow> bool \<Rightarrow> (analyzer \<times> bool) outcome" where
  "startListening a env micStarts =
     and_then (if \<not> isInitialized a then init a env else returns (a, True))
       (\<lambda>(a1, success).
          if \<not> success then returns (a1, False)
          else if \<not> mic a1 \<or> \<not> micStarts \<or> \<not> fft a1 then returns (a1, False)
          else returns (a1\<lparr>isListening := True\<rparr>, True))"

definition stopListening :: "analyzer \<Rightarrow> analyzer" where
  "stopListening a = (if mic a \<and> isListening a then a\<lparr>isListening := False\<rparr> else a)"

definition dispose :: "analyzer \<Rightarrow> analyzer" where
  "dispose a = (stopListening a)\<lparr>fft := False, mic := False, isInitialized := False\<rparr>"

subsection \<open>Band energies\<close>

text \<open>
  The loop of \<^verbatim>\<open>getBandEnergy\<close>:
  \<^verbatim>\<open>for (let i = range.start; i < range.end && i < spectrum.length; i++) sum += spectrum[i]\<close>.
  With \<open>i = -\<infinity>\<close> the increment leaves \<open>i\<close> unchanged and the loop does not end.
\<close>

partial_function (option) getBandEnergy_loop ::
  "jsnum list \<Rightarrow> bin_range \<Rightarrow> jsnum \<Rightarrow> jsnum \<Rightarrow> jsnum option" where
  "getBandEnergy_loop spectrum rng i acc =
     (if js_lt i (range_end rng) \<and> js_lt i (Fin (real (length spectrum)))
      then getBandEnergy_loop spectrum rng (js_add i (Fin 1))
             (add_assign acc (array_get spectrum i))
      else Some acc)"

text \<open>\<^verbatim>\<open>getBandEnergy(bandName)\<close>; \<open>spectrum\<close> is what \<^verbatim>\<open>this.fft.analyze()\<close> returns.\<close>

definition getBandEnergy :: "analyzer \<Rightarrow> jsnum list \<Rightarrow> string \<Rightarrow> jsnum outcome" where
  "getBandEnergy a spectrum bandName =
     (if \<not> fft a then returns (Fin 0)
      else case binRanges a of
        None \<Rightarrow> returns (Fin 0)
      | Some ranges \<Rightarrow>
          (case ranges bandName of
             None \<Rightarrow> returns (Fin 0)
           | Some rng \<Rightarrow>
               (let count = js_sub (range_end rng) (range_start rng)
                in case getBandEnergy_loop spectrum rng (range_start rng) (Fin 0) of
                     None \<Rightarrow> None
                   | Some acc \<Rightarrow>
                       returns (if js_gt count (Fin 0) then js_div acc count else Fin 0))))"

text \<open>The loop of \<^verbatim>\<open>_getAverageEnergy\<close>, which also counts its iterations.\<close>

partial_function (option) getAverageEnergy_loop ::
  "jsnum list \<Rightarrow> bin_range \<Rightarrow> jsnum \<Rightarrow> jsnum \<Rightarrow> nat \<Rightarrow> (jsnum \<times> nat) option" where
  "getAverageEnergy_loop spectrum rng i acc count =
     (if js_lt i (range_end rng) \<and> js_lt i (Fin (real (length spectrum)))
      then getAverageEnergy_loop spectrum rng (js_add i (Fin 1))
             (add_assign acc (array_get spectrum i)) (count + 1)
      else Some (acc, count))"

text \<open>\<^verbatim>\<open>_getAverageEnergy(spectrum, bandName)\<close>: \<^verbatim>\<open>this.binRanges.get\<close> raises a
  \<^verbatim>\<open>TypeError\<close> when \<open>binRanges\<close> is \<^verbatim>\<open>null\<close>.\<close>

definition getAverageEnergy :: "analyzer \<Rightarrow> jsnum list \<Rightarrow> string \<Rightarrow> jsnum outcome" where
  "getAverageEnergy a spectrum bandName =
     (case binRanges a of
        None \<Rightarrow> throws TypeError
      | Some ranges \<Rightarrow>
          (case ranges bandName of
             None \<Rightarrow> returns (Fin 0)
           | Some rng \<Rightarrow>
               (case getAverageEnergy_loop spectrum rng (range_start rng) (Fin 0) 0 of
                  None \<Rightarrow> None
                | Some (acc, count) \<Rightarrow>
                    returns (if 0 < count
                             then js_div (js_div acc (Fin (real count))) (Fin 255)
                             else Fin 0))))"

text \<open>\<^verbatim>\<open>_calculateWeightedEnergy(energies, weights)\<close>: a missing weight is \<^verbatim>\<open>undefined\<close>
  and the product with it is \<open>NaN\<close>.\<close>

definition calculateWeightedEnergy :: "jsnum list \<Rightarrow> jsnum list \<Rightarrow> jsnum" where
  "calculateWeightedEnergy energies ws =
     foldl (\<lambda>acc i. js_add acc (if i < length ws then js_mul (energies ! i) (ws ! i) else NaN))
       (Fin 0) [0..<length energies]"

subsection \<open>History and peaks\<close>

text \<open>\<^verbatim>\<open>_updateHistory()\<close>.\<close>

definition updateHistory :: "analyzer \<Rightarrow> analyzer" where
  "updateHistory a =
     a\<lparr>energyHistory_drums :=
         typed_array_set (energyHistory_drums a) (historyIndex a) (drums_combined (energyCache a)),
       energyHistory_bass :=
         typed_array_set (energyHistory_bass a) (historyIndex a) (bass_combined (energyCache a)),
       historyIndex := js_mod (js_add (historyIndex a) (Fin 1)) (historySize a)\<rparr>"

text \<open>The body of the loop of \<^verbatim>\<open>_detectPeaks()\<close> for one category.\<close>

definition detectPeaks_body :: "analyzer \<Rightarrow> category \<Rightarrow> analyzer" where
  "detectPeaks_body a cat =
     (let current = smoothedEnergy a cat;
          peak0 = peaks a cat;
          peak1 = peak0\<lparr>peak_value := js_mul (peak_value peak0) (peakDecay a)\<rparr>
      in if js_gt current (peak_value peak1) \<and> js_gt current (peakThreshold a)
         then a\<lparr>peaks := (peaks a)(cat := peak1\<lparr>peak_value := current, isPeak := True\<rparr>)\<rparr>
         else a\<lparr>peaks := (peaks a)(cat := peak1\<lparr>isPeak := False\<rparr>)\<rparr>)"

definition detectPeaks :: "analyzer \<Rightarrow> analyzer" where
  "detectPeaks a = foldl detectPeaks_body a [Drums, Vocals, Bass, Highs]"

subsection \<open>The analysis cycle\<close>

text \<open>\<^verbatim>\<open>update()\<close>; \<open>spectrum\<close> is what \<^verbatim>\<open>this.fft.analyze()\<close> returns in this frame.\<close>

definition update :: "analyzer \<Rightarrow> jsnum list \<Rightarrow> analyzer outcome" where
  "update a spectrum =
     (if \<not> fft a \<or> \<not> isListening a then returns a
      else
        and_then (getAverageEnergy a spectrum ''DRUMS_LOW'') (\<lambda>e.
        let a = a\<lparr>energyCache := (energyCache a)\<lparr>drums_low := e\<rparr>\<rparr> in
        and_then (getAverageEnergy a spectrum ''DRUMS_MID'') (\<lambda>e.
        let a = a\<lparr>energyCache := (energyCache a)\<lparr>drums_mid := e\<rparr>\<rparr> in
        and_then (getAverageEnergy a spectrum ''DRUMS_HIGH'') (\<lambda>e.
        let a = a\<lparr>energyCache := (energyCache a)\<lparr>drums_high := e\<rparr>\<rparr>;
            a = a\<lparr>energyCache := (energyCache a)\<lparr>drums_combined :=
                  calculateWeightedEnergy
                    [drums_low (energyCache a), drums_mid (energyCache a),
                     drums_high (energyCache a)]
                    (weights VisualizerGroups_DRUMS)\<rparr>\<rparr> in
        and_then (getAverageEnergy a spectrum ''VOCALS_LOW'') (\<lambda>e.
        let a = a\<lparr>energyCache := (energyCache a)\<lparr>vocals_low := e\<rparr>\<rparr> in
        and_then (getAverageEnergy a spectrum ''VOCALS_MID'') (\<lambda>e.
        let a = a\<lparr>energyCache := (energyCache a)\<lparr>vocals_mid := e\<rparr>\<rparr> in
        and_then (getAverageEnergy a spectrum ''VOCALS_HIGH'') (\<lambda>e.
        let a = a\<lparr>energyCache := (energyCache a)\<lparr>vocals_high := e\<rparr>\<rparr>;
            a = a\<lparr>energyCache := (energyCache a)\<lparr>vocals_combined :=
                  calculateWeightedEnergy
                    [vocals_low (energyCache a), vocals_mid (energyCache a),
                     vocals_high (energyCache a)]
                    (weights VisualizerGroups_VOCALS)\<rparr>\<rparr> in
        and_then (getAverageEnergy a spectrum ''SUB_BASS'') (\<lambda>e.
        let a = a\<lparr>energyCache := (energyCache a)\<lparr>bass_sub := e\<rparr>\<rparr> in
        and_then (getAverageEnergy a spectrum ''BASS'') (\<lambda>e.
        let a = a\<lparr>energyCache := (energyCache a)\<lparr>bass_main := e\<rparr>\<rparr>;
            a = a\<lparr>energyCache := (energyCache a)\<lparr>bass_combined :=
                  calculateWeightedEnergy
                    [bass_sub (energyCache a), bass_main (energyCache a)]
                    (weights VisualizerGroups_BASS)\<rparr>\<rparr> in
        and_then (getAverageEnergy a spectrum ''INSTRUMENTS_HIGH'') (\<lambda>e.
        let a = a\<lparr>energyCache := (energyCache a)\<lparr>highs_instruments := e\<rparr>\<rparr> in
        and_then (getAverageEnergy a spectrum ''AIR'') (\<lambda>e.
        let a = a\<lparr>energyCache := (energyCache a)\<lparr>highs_air := e\<rparr>\<rparr>;
            a = a\<lparr>energyCache := (energyCache a)\<lparr>highs_combined :=
                  calculateWeightedEnergy
                    [highs_instruments (energyCache a), highs_air (energyCache a)]
                    (weights VisualizerGroups_HIGHS)\<rparr>\<rparr>;
            smoothFactor = Fin 0.3;
            a = a\<lparr>smoothedEnergy := (smoothedEnergy a)(Drums :=
                  js_add (smoothedEnergy a Drums)
                    (js_mul (js_sub (drums_combined (energyCache a)) (smoothedEnergy a Drums))
                       smoothFactor))\<rparr>;
            a = a\<lparr>smoothedEnergy := (smoothedEnergy a)(Vocals :=
                  js_add (smoothedEnergy a Vocals)
                    (js_mul (js_sub (vocals_combined (energyCache a)) (smoothedEnergy a Vocals))
                       smoothFactor))\<rparr>;
            a = a\<lparr>smoothedEnergy := (smoothedEnergy a)(Bass :=
                  js_add (smoothedEnergy a Bass)
                    (js_mul (js_sub (bass_combined (energyCache a)) (smoothedEnergy a Bass))
                       smoothFactor))\<rparr>;
            a = a\<lparr>smoothedEnergy := (smoothedEnergy a)(Highs :=
                  js_add (smoothedEnergy a Highs)
                    (js_mul (js_sub (highs_combined (energyCache a)) (smoothedEnergy a Highs))
                       smoothFactor))\<rparr>
        in returns (detectPeaks (updateHistory a)))))))))))))"

text \<open>The host calls \<^verbatim>\<open>update()\<close> once per frame; \<open>cycles\<close> runs it over the spectra of
  successive frames.\<close>

fun cycles :: "analyzer \<Rightarrow> jsnum list list \<Rightarrow> analyzer outcome" where
  "cycles a [] = returns a"
| "cycles a (spectrum # rest) = and_then (update a spectrum) (\<lambda>a'. cycles a' rest)"

text \<open>\<^verbatim>\<open>energyCache[cat].combined\<close>.\<close>

fun combined :: "energy_cache \<Rightarrow> category \<Rightarrow> jsnum" where
  "combined c Drums = drums_combined c"
| "combined c Vocals = vocals_combined c"
| "combined c Bass = bass_combined c"
| "combined c Highs = highs_combined c"

text \<open>
  One cycle of the detector as its contract \<^verbatim>\<open>detectPeak(category, smoothedEnergyNow)\<close>
  sees it: \<^verbatim>\<open>_detectPeaks()\<close> run in a state whose smoothed energy for the category is
  the given value.
\<close>

definition detectPeak :: "analyzer \<Rightarrow> category \<Rightarrow> jsnum \<Rightarrow> analyzer" where
  "detectPeak a cat smoothedEnergyNow =
     detectPeaks (a\<lparr>smoothedEnergy := (smoothedEnergy a)(cat := smoothedEnergyNow)\<rparr>)"

text \<open>
  The states an analyzer can be in: the constructed one, and every state one of its
  methods leaves when called in such a state, whatever the audio library does and whatever
  spectrum a frame brings.  The reading methods (\<^verbatim>\<open>getEnergies\<close>, \<^verbatim>\<open>getPeaks\<close>,
  \<^verbatim>\<open>getBandEnergy\<close>, \<^verbatim>\<open>getSpectrum\<close>, \<^verbatim>\<open>getWaveform\<close>) assign no field.
\<close>

inductive reachable :: "analyzer \<Rightarrow> bool" where
  constructed: "reachable (AudioAnalyzer fftSize0 smoothing0)"
| after_init: "reachable a \<Longrightarrow> init a env = returns (a', ok) \<Longrightarrow> reachable a'"
| after_startListening:
    "reachable a \<Longrightarrow> startListening a env micStarts = returns (a', ok) \<Longrightarrow> reachable a'"
| after_stopListening: "reachable a \<Longrightarrow> reachable (stopListening a)"
| after_dispose: "reachable a \<Longrightarrow> reachable (dispose a)"
| after_update: "reachable a \<Longrightarrow> update a spectrum = returns a' \<Longrightarrow> reachable a'"

section \<open>Facts about outcomes\<close>

lemma returns_inject [simp]: "(returns x = returns y) = (x = y)"
  by (simp add: returns_def)

lemma returns_not_throws [simp]:
  "returns x \<noteq> throws e" "throws e \<noteq> returns x"
  "returns x \<noteq> None" "throws e \<noteq> None" "None \<noteq> returns x" "None \<noteq> throws e"
  by (simp_all add: returns_def throws_def)

lemma and_then_returns [simp]: "and_then (returns v) f = f v"
  by (simp add: and_then_def returns_def)

lemma and_then_throws [simp]: "and_then (throws e) f = throws e"
  by (simp add: and_then_def throws_def)

lemma and_then_None [simp]: "and_then None f = None"
  by (simp add: and_then_def)

section \<open>Arithmetic on finite values\<close>

lemma js_mul_Fin_pos [simp]: "0 < y \<Longrightarrow> js_mul (Fin x) (Fin y) = Fin (x * y)"
  by (auto simp: js_mul_def signed_zero_def)

lemma js_sub_Fin [simp]: "js_sub (Fin x) (Fin y) = Fin (x - y)"
  by (simp add: js_sub_def)

lemma js_gt_Fin [simp]: "js_gt (Fin x) (Fin y) = (y < x)"
  by (simp add: js_gt_def)

lemma js_div_Fin_pos [simp]: "0 < y \<Longrightarrow> js_div (Fin x) (Fin y) = Fin (x / y)"
  by (auto simp: js_div_def signed_zero_def)

section \<open>Properties of peak detection\<close>

text \<open>A pass of the loop body changes nothing but the entry of its category.\<close>

lemma detectPeaks_body_fields [simp]:
  "smoothedEnergy (detectPeaks_body a cat) = smoothedEnergy a"
  "peakDecay (detectPeaks_body a cat) = peakDecay a"
  "peakThreshold (detectPeaks_body a cat) = peakThreshold a"
  "energyCache (detectPeaks_body a cat) = energyCache a"
  "binRanges (detectPeaks_body a cat) = binRanges a"
  "fft (detectPeaks_body a cat) = fft a"
  "mic (detectPeaks_body a cat) = mic a"
  "isListening (detectPeaks_body a cat) = isListening a"
  "isInitialized (detectPeaks_body a cat) = isInitialized a"
  "historyIndex (detectPeaks_body a cat) = historyIndex a"
  "historySize (detectPeaks_body a cat) = historySize a"
  "energyHistory_drums (detectPeaks_body a cat) = energyHistory_drums a"
  "energyHistory_bass (detectPeaks_body a cat) = energyHistory_bass a"
  "fftSize (detectPeaks_body a cat) = fftSize a"
  "smoothing (detectPeaks_body a cat) = smoothing a"
  by (simp_all add: detectPeaks_body_def Let_def)

lemma detectPeaks_body_peaks:
  "peaks (detectPeaks_body a cat) c =
     (if c = cat
      then (peaks a cat)\<lparr>peak_value :=
              (if js_gt (smoothedEnergy a cat) (js_mul (peak_value (peaks a cat)) (peakDecay a)) \<and>
                  js_gt (smoothedEnergy a cat) (peakThreshold a)
               then smoothedEnergy a cat
               else js_mul (peak_value (peaks a cat)) (peakDecay a)),
            isPeak :=
              (js_gt (smoothedEnergy a cat) (js_mul (peak_value (peaks a cat)) (peakDecay a)) \<and>
               js_gt (smoothedEnergy a cat) (peakThreshold a))\<rparr>
      else peaks a c)"
  by (simp add: detectPeaks_body_def Let_def)

lemma detectPeaks_fields [simp]:
  "smoothedEnergy (detectPeaks a) = smoothedEnergy a"
  "peakDecay (detectPeaks a) = peakDecay a"
  "peakThreshold (detectPeaks a) = peakThreshold a"
  "energyCache (detectPeaks a) = energyCache a"
  "binRanges (detectPeaks a) = binRanges a"
  "fft (detectPeaks a) = fft a"
  "mic (detectPeaks a) = mic a"
  "isListening (detectPeaks a) = isListening a"
  "isInitialized (detectPeaks a) = isInitialized a"
  "historyIndex (detectPeaks a) = historyIndex a"
  "historySize (detectPeaks a) = historySize a"
  "energyHistory_drums (detectPeaks a) = energyHistory_drums a"
  "energyHistory_bass (detectPeaks a) = energyHistory_bass a"
  "fftSize (detectPeaks a) = fftSize a"
  "smoothing (detectPeaks a) = smoothing a"
  by (simp_all add: detectPeaks_def)

text \<open>The four passes are independent: each category's entry is rewritten once, from the
  values it had before the call.\<close>

lemma detectPeaks_peaks:
  "peaks (detectPeaks a) cat =
     (peaks a cat)\<lparr>peak_value :=
        (if js_gt (smoothedEnergy a cat) (js_mul (peak_value (peaks a cat)) (peakDecay a)) \<and>
            js_gt (smoothedEnergy a cat) (peakThreshold a)
         then smoothedEnergy a cat
         else js_mul (peak_value (peaks a cat)) (peakDecay a)),
      isPeak :=
        (js_gt (smoothedEnergy a cat) (js_mul (peak_value (peaks a cat)) (peakDecay a)) \<and>
         js_gt (smoothedEnergy a cat) (peakThreshold a))\<rparr>"
  by (cases cat) (simp_all add: detectPeaks_def detectPeaks_body_peaks)

lemma peak_update_eq:
  "(p :: peak)\<lparr>peak_value := v, isPeak := b\<rparr> = \<lparr>peak_value = v, isPeak = b\<rparr>"
  by (cases p) simp

lemma detectPeak_constructor:
  "peaks (detectPeak (AudioAnalyzer fftSize0 smoothing0) cat (Fin (9 / 10))) cat =
     \<lparr>peak_value = Fin (9 / 10), isPeak = True\<rparr>"
  by (simp add: detectPeak_def detectPeaks_peaks AudioAnalyzer_def)

lemma detectPeak_refire:
  assumes "peaks a cat = \<lparr>peak_value = Fin (9 / 10), isPeak = b\<rparr>"
    and "peakDecay a = Fin (19 / 20)" and "peakThreshold a = Fin (7 / 10)"
  shows "peaks (detectPeak a cat (Fin (9 / 10))) cat = \<lparr>peak_value = Fin (9 / 10), isPeak = True\<rparr>"
  using assms by (simp add: detectPeak_def detectPeaks_peaks)

lemma detectPeak_fields [simp]:
  "peakDecay (detectPeak a cat x) = peakDecay a"
  "peakThreshold (detectPeak a cat x) = peakThreshold a"
  by (simp_all add: detectPeak_def)



text \<open>
  Claim C1, as stated, fails: with the smoothed energy held at 0.9 the second cycle is a
  peak again.  The stored peak value 0.9 has decayed to 0.855 before the comparison, and
  0.9 exceeds both 0.855 and the threshold 0.7.
\<close>

theorem constant_input_refires_on_cycle_2:
  "isPeak (peaks (detectPeak (detectPeak (AudioAnalyzer (Fin 1024) (Fin 0.8)) Drums (Fin 0.9))
                    Drums (Fin 0.9)) Drums)"
proof -
  have "peaks (detectPeak (detectPeak (AudioAnalyzer (Fin 1024) (Fin (4 / 5))) Drums (Fin (9 / 10)))
                 Drums (Fin (9 / 10))) Drums =
          \<lparr>peak_value = Fin (9 / 10), isPeak = True\<rparr>"
    by (rule detectPeak_refire [OF detectPeak_constructor]) (simp_all add: AudioAnalyzer_def)
  then show ?thesis by simp
qed

text \<open>
  Claim C1, amended.  For the smoothed-energy sequence 0.9, 0.9, 0.9 fed to the detector of
  one category of a freshly constructed analyzer (peak value 0, no peak, threshold 0.7,
  decay 0.95), every one of the three cycles is a peak and the stored peak value is 0.9
  after each of them.
\<close>

theorem constant_input_peaks_every_cycle:
  "peaks (detectPeak (AudioAnalyzer fftSize0 smoothing0) cat (Fin 0.9)) cat =
     \<lparr>peak_value = Fin 0.9, isPeak = True\<rparr> \<and>
   peaks (detectPeak (detectPeak (AudioAnalyzer fftSize0 smoothing0) cat (Fin 0.9))
            cat (Fin 0.9)) cat =
     \<lparr>peak_value = Fin 0.9, isPeak = True\<rparr> \<and>
   peaks (detectPeak (detectPeak (detectPeak (AudioAnalyzer fftSize0 smoothing0) cat (Fin 0.9))
            cat (Fin 0.9)) cat (Fin 0.9)) cat =
     \<lparr>peak_value = Fin 0.9, isPeak = True\<rparr>"
proof -
  let ?a0 = "AudioAnalyzer fftSize0 smoothing0"
  let ?a1 = "detectPeak ?a0 cat (Fin (9 / 10))"
  let ?a2 = "detectPeak ?a1 cat (Fin (9 / 10))"
  have d: "peakDecay ?a0 = Fin (19 / 20)" and t: "peakThreshold ?a0 = Fin (7 / 10)"
    by (simp_all add: AudioAnalyzer_def)
  have 1: "peaks ?a1 cat = \<lparr>peak_value = Fin (9 / 10), isPeak = True\<rparr>"
    by (rule detectPeak_constructor)
  have 2: "peaks ?a2 cat = \<lparr>peak_value = Fin (9 / 10), isPeak = True\<rparr>"
    by (rule detectPeak_refire [OF 1]) (simp_all add: d t)
  have 3: "peaks (detectPeak ?a2 cat (Fin (9 / 10))) cat =
             \<lparr>peak_value = Fin (9 / 10), isPeak = True\<rparr>"
    by (rule detectPeak_refire [OF 2]) (simp_all add: d t)
  from 1 2 3 show ?thesis by simp
qed

section \<open>Properties of the bin mapper\<close>

lemma getBinRange_returns: "\<exists>rng. getBinRange band sampleRate fftSize0 = returns rng"
  by (simp add: getBinRange_def Let_def)

lemma calculateAllBinRanges_loop_returns:
  "\<exists>ranges'. calculateAllBinRanges_loop entries sampleRate fftSize0 ranges = returns ranges' \<and>
      dom ranges' = dom ranges \<union> fst ` set entries"
proof (induction entries arbitrary: ranges)
  case Nil
  then show ?case by simp
next
  case (Cons entry entries)
  obtain name band where e: "entry = (name, band)" by (cases entry)
  obtain rng where r: "getBinRange band sampleRate fftSize0 = returns rng"
    using getBinRange_returns by blast
  obtain ranges' where
    l: "calculateAllBinRanges_loop entries sampleRate fftSize0 (ranges(name \<mapsto> rng)) =
          returns ranges'"
    and d: "dom ranges' = dom (ranges(name \<mapsto> rng)) \<union> fst ` set entries"
    using Cons.IH [of "ranges(name \<mapsto> rng)"] by blast
  have "calculateAllBinRanges_loop (entry # entries) sampleRate fftSize0 ranges = returns ranges'"
    by (simp add: e r l)
  moreover have "dom ranges' = dom ranges \<union> fst ` set (entry # entries)"
    using d by (auto simp: e)
  ultimately show ?case by blast
qed

text \<open>
  Claim C2, as stated, fails: with the negative transform size \<open>-1024\<close> (and sample rate
  44100) \<^verbatim>\<open>getBinRange\<close> returns the range \<^verbatim>\<open>{start: -1, end: -1}\<close> for the sub-bass band
  instead of raising.
\<close>

theorem getBinRange_negative_fftSize_returns:
  "getBinRange \<lparr>band_name = ''Sub Bass'', band_min = Fin 20, band_max = Fin 60,
                 band_color = (128, 0, 255)\<rparr> (Fin 44100) (Fin (- 1024)) =
     returns \<lparr>range_start = Fin (- 1), range_end = Fin (- 1)\<rparr>"
  by (simp add: getBinRange_def js_div_def)

text \<open>
  Claim C2, amended.  For every configuration, the malformed ones included (transform
  size zero or negative, sample rate not positive), \<^verbatim>\<open>getBinRange\<close> returns a range and
  \<^verbatim>\<open>calculateAllBinRanges\<close> returns a mapping that has a range for every band of the
  table; neither raises: the code validates nothing.
\<close>

theorem bin_mapping_never_fails:
  "(\<exists>rng. getBinRange band sampleRate fftSize0 = returns rng) \<and>
   (\<exists>ranges. calculateAllBinRanges sampleRate fftSize0 = returns ranges \<and>
      dom ranges = fst ` set FrequencyBands)"
  using calculateAllBinRanges_loop_returns [of FrequencyBands sampleRate fftSize0 Map.empty]
  by (simp add: getBinRange_returns calculateAllBinRanges_def)



section \<open>Properties of the band energies\<close>

lemma array_get_nat [simp]:
  "array_get xs (Fin (real i)) = (if i < length xs then Some (xs ! i) else None)"
  by (simp add: array_get_def)

lemma add_assign_Fin [simp]: "add_assign (Fin x) (Some (Fin y)) = Fin (x + y)"
  by (simp add: add_assign_def)

lemma js_add_Suc: "js_add (Fin (real i)) (Fin 1) = Fin (real (Suc i))"
  by (simp add: add.commute)

lemma getAverageEnergy_loop_nat:
  assumes "range_end rng = Fin (real e)"
  shows "getAverageEnergy_loop (map Fin vs) rng (Fin (real i)) (Fin acc) count =
           Some (Fin (acc + (\<Sum>k = i..<min e (length vs). vs ! k)), count + (min e (length vs) - i))"
proof (induction "min e (length vs) - i" arbitrary: i acc count)
  case 0
  then have "\<not> (i < e \<and> i < length vs)" by auto
  then show ?case
    by (subst getAverageEnergy_loop.simps) (auto simp: assms)
next
  case (Suc d)
  then have lt: "i < e" "i < length vs" by auto
  have d: "d = min e (length vs) - Suc i" using Suc.hyps(2) by simp
  have s: "(\<Sum>k = i..<min e (length vs). vs ! k) = vs ! i + (\<Sum>k = Suc i..<min e (length vs). vs ! k)"
    using lt by (simp add: sum.atLeast_Suc_lessThan)
  show ?case
    apply (subst getAverageEnergy_loop.simps)
    apply (simp only: js_add_Suc)
    using lt Suc.hyps(1) [OF d] Suc.hyps(2) by (simp add: assms s)
qed

lemma getBandEnergy_loop_nat:
  assumes "range_end rng = Fin (real e)"
  shows "getBandEnergy_loop (map Fin vs) rng (Fin (real i)) (Fin acc) =
           Some (Fin (acc + (\<Sum>k = i..<min e (length vs). vs ! k)))"
proof (induction "min e (length vs) - i" arbitrary: i acc)
  case 0
  then have "\<not> (i < e \<and> i < length vs)" by auto
  then show ?case
    by (subst getBandEnergy_loop.simps) (auto simp: assms)
next
  case (Suc d)
  then have lt: "i < e" "i < length vs" by auto
  have d: "d = min e (length vs) - Suc i" using Suc.hyps(2) by simp
  have s: "(\<Sum>k = i..<min e (length vs). vs ! k) = vs ! i + (\<Sum>k = Suc i..<min e (length vs). vs ! k)"
    using lt by (simp add: sum.atLeast_Suc_lessThan)
  show ?case
    apply (subst getBandEnergy_loop.simps)
    apply (simp only: js_add_Suc)
    using lt Suc.hyps(1) [OF d] by (simp add: assms s)
qed

lemma getAverageEnergy_loop_Fin_terminates:
  "\<exists>res. getAverageEnergy_loop spectrum rng (Fin x) acc count = Some res"
proof (induction "nat \<lceil>real (length spectrum) - x\<rceil>" arbitrary: x acc count)
  case 0
  then have "\<not> x < real (length spectrum)" by linarith
  then show ?case
    by (subst getAverageEnergy_loop.simps) simp
next
  case (Suc d)
  have d: "d = nat \<lceil>real (length spectrum) - (x + 1)\<rceil>" using Suc.hyps(2) by linarith
  show ?case
    apply (subst getAverageEnergy_loop.simps)
    using Suc.hyps(1) [OF d] by simp
qed

lemma getAverageEnergy_loop_terminates:
  assumes "i \<noteq> NegInf"
  shows "\<exists>res. getAverageEnergy_loop spectrum rng i acc count = Some res"
proof (cases i)
  case (Fin x)
  then show ?thesis using getAverageEnergy_loop_Fin_terminates by simp
next
  case NegZero
  show ?thesis
    apply (subst getAverageEnergy_loop.simps)
    using getAverageEnergy_loop_Fin_terminates [of spectrum rng 1] by (simp add: NegZero)
next
  case PosInf
  show ?thesis by (subst getAverageEnergy_loop.simps) (simp add: PosInf)
next
  case NegInf
  then show ?thesis using assms by simp
next
  case NaN
  show ?thesis by (subst getAverageEnergy_loop.simps) (simp add: NaN)
qed

text \<open>The condition cannot be dropped: started at \<open>-\<infinity>\<close> with an end above it, the loop
  does not return.\<close>

lemma getAverageEnergy_loop_NegInf:
  assumes "getAverageEnergy_loop spectrum rng i acc count = Some res"
  shows "\<not> (i = NegInf \<and> js_lt NegInf (range_end rng))"
proof (rule getAverageEnergy_loop.raw_induct
    [where P = "\<lambda>spectrum rng i acc count res. \<not> (i = NegInf \<and> js_lt NegInf (range_end rng))",
      OF _ assms])
  fix loop :: "jsnum list \<Rightarrow> bin_range \<Rightarrow> jsnum \<Rightarrow> jsnum \<Rightarrow> nat \<Rightarrow> (jsnum \<times> nat) option"
    and spectrum rng i acc count res
  assume IH: "\<And>spectrum rng i acc count res.
      loop spectrum rng i acc count = Some res \<Longrightarrow>
      \<not> (i = NegInf \<and> js_lt NegInf (range_end rng))"
    and body: "(if js_lt i (range_end rng) \<and> js_lt i (Fin (real (length spectrum)))
         then loop spectrum rng (js_add i (Fin 1)) (add_assign acc (array_get spectrum i)) (count + 1)
         else Some (acc, count)) = Some res"
  show "\<not> (i = NegInf \<and> js_lt NegInf (range_end rng))"
  proof
    assume h: "i = NegInf \<and> js_lt NegInf (range_end rng)"
    then have "loop spectrum rng NegInf (add_assign acc (array_get spectrum NegInf)) (count + 1) =
                 Some res"
      using body by simp
    from IH [OF this] h show False by simp
  qed
qed

lemma getAverageEnergy_loop_diverges:
  "js_lt NegInf (range_end rng) \<Longrightarrow> getAverageEnergy_loop spectrum rng NegInf acc count = None"
  using getAverageEnergy_loop_NegInf [of spectrum rng NegInf acc count]
  by (cases "getAverageEnergy_loop spectrum rng NegInf acc count") auto

lemma clamped_sum_bounds:
  assumes "\<forall>v\<in>set vs. 0 \<le> v \<and> v \<le> (255::real)" and "u \<le> length vs"
  shows "0 \<le> (\<Sum>k = s..<u. vs ! k)" and "(\<Sum>k = s..<u. vs ! k) \<le> 255 * real (u - s)"
proof -
  have in_set: "vs ! k \<in> set vs" if "k \<in> {s..<u}" for k
    using that assms(2) by simp
  show "0 \<le> (\<Sum>k = s..<u. vs ! k)"
    by (rule sum_nonneg) (use in_set assms(1) in blast)
  have "(\<Sum>k = s..<u. vs ! k) \<le> (\<Sum>k = s..<u. 255)"
    by (rule sum_mono) (use in_set assms(1) in blast)
  then show "(\<Sum>k = s..<u. vs ! k) \<le> 255 * real (u - s)" by simp
qed

lemma getAverageEnergy_nat:
  assumes "binRanges a = Some ranges" and "ranges bandName = Some rng"
    and "range_start rng = Fin (real s)" and "range_end rng = Fin (real e)"
  shows "getAverageEnergy a (map Fin vs) bandName =
           returns (Fin (if s < min e (length vs)
                         then (\<Sum>k = s..<min e (length vs). vs ! k)
                                / real (min e (length vs) - s) / 255
                         else 0))"
  using getAverageEnergy_loop_nat [OF assms(4), of vs s 0 0]
  by (simp add: getAverageEnergy_def assms(1,2,3))

lemma getBandEnergy_nat:
  assumes "fft a" and "binRanges a = Some ranges" and "ranges bandName = Some rng"
    and "range_start rng = Fin (real s)" and "range_end rng = Fin (real e)"
  shows "getBandEnergy a (map Fin vs) bandName =
           returns (Fin (if s < e
                         then (\<Sum>k = s..<min e (length vs). vs ! k) / (real e - real s)
                         else 0))"
  using getBandEnergy_loop_nat [OF assms(5), of vs s 0]
  by (simp add: getBandEnergy_def assms Let_def)

text \<open>
  Claim C4.  For a spectrum of magnitudes in \<open>[0, 255]\<close> and a range whose start and end
  are natural numbers \<open>s\<close> and \<open>e\<close>, \<^verbatim>\<open>_getAverageEnergy\<close> returns the sum of the
  magnitudes at the indices from \<open>s\<close> up to (not including) the smaller of \<open>e\<close> and the
  spectrum length, divided by the number of those indices and then by 255; the result lies
  in \<open>[0, 1]\<close>, and it is exactly 0 when there is no such index.
\<close>

theorem getAverageEnergy_clamped_average:
  assumes "binRanges a = Some ranges" and "ranges bandName = Some rng"
    and "range_start rng = Fin (real s)" and "range_end rng = Fin (real e)"
    and "\<forall>v\<in>set vs. 0 \<le> v \<and> v \<le> 255"
  shows "\<exists>avg. getAverageEnergy a (map Fin vs) bandName = returns (Fin avg) \<and>
           avg = (if s < min e (length vs)
                  then (\<Sum>k = s..<min e (length vs). vs ! k)
                         / real (min e (length vs) - s) / 255
                  else 0) \<and>
           0 \<le> avg \<and> avg \<le> 1"
proof -
  let ?u = "min e (length vs)"
  let ?S = "\<Sum>k = s..<?u. vs ! k"
  have b: "0 \<le> ?S" "?S \<le> 255 * real (?u - s)"
    using clamped_sum_bounds [OF assms(5), of ?u s] by simp_all
  have "0 \<le> ?S / real (?u - s) / 255" using b(1) by simp
  moreover have "?S / real (?u - s) / 255 \<le> 1" if "s < ?u"
  proof -
    have "0 < real (?u - s)" using that by simp
    then show ?thesis using b(2) by (simp add: field_simps)
  qed
  ultimately show ?thesis
    using getAverageEnergy_nat [OF assms(1-4), of vs] by auto
qed

theorem getAverageEnergy_clamped_average_witness:
  "getAverageEnergy
     ((AudioAnalyzer (Fin 1024) (Fin 0.8))
        \<lparr>binRanges := Some (map_of [(''SUB_BASS'', \<lparr>range_start = Fin 0, range_end = Fin 2\<rparr>)])\<rparr>)
     [Fin 100, Fin 100, Fin 0, Fin 0] ''SUB_BASS'' = returns (Fin (20 / 51))"
  using getAverageEnergy_clamped_average [of "(AudioAnalyzer (Fin 1024) (Fin 0.8))
        \<lparr>binRanges := Some (map_of [(''SUB_BASS'', \<lparr>range_start = Fin 0, range_end = Fin 2\<rparr>)])\<rparr>"
      "map_of [(''SUB_BASS'', \<lparr>range_start = Fin 0, range_end = Fin 2\<rparr>)]" "''SUB_BASS''"
      "\<lparr>range_start = Fin 0, range_end = Fin 2\<rparr>" 0 2 "[100, 100, 0, 0]"]
  by (auto simp: eval_nat_numeral)


text \<open>
  Claim C10, amended.  With an FFT object and a bin mapping present, \<^verbatim>\<open>getBandEnergy\<close>
  returns 0 for a band key the mapping does not have.  For a range whose start and end are
  natural numbers \<open>s\<close> and \<open>e\<close> it returns the sum of the spectrum values at the indices
  from \<open>s\<close> up to the smaller of \<open>e\<close> and the spectrum length, divided by the unclamped
  width \<open>e - s\<close> and not by 255, and 0 when \<open>e \<le> s\<close>; for magnitudes in \<open>[0, 255]\<close> the
  result is in \<open>[0, 255]\<close>.  When the range starts inside the spectrum and ends beyond it,
  the result times the unclamped width equals 255 times the internal clamped average times
  the clamped count, so the result differs from 255 times that average exactly when the
  clamped sum is not zero.
\<close>

theorem getBandEnergy_unclamped_width:
  assumes "fft a" and "binRanges a = Some ranges"
  shows "(ranges unknownName = None \<longrightarrow>
            getBandEnergy a spectrum unknownName = returns (Fin 0)) \<and>
         (ranges bandName = Some \<lparr>range_start = Fin (real s), range_end = Fin (real e)\<rparr> \<longrightarrow>
            (\<exists>g avg.
               getBandEnergy a (map Fin vs) bandName = returns (Fin g) \<and>
               getAverageEnergy a (map Fin vs) bandName = returns (Fin avg) \<and>
               g = (if s < e
                    then (\<Sum>k = s..<min e (length vs). vs ! k) / (real e - real s)
                    else 0) \<and>
               (e \<le> s \<longrightarrow> g = 0) \<and>
               ((\<forall>v\<in>set vs. 0 \<le> v \<and> v \<le> 255) \<longrightarrow> 0 \<le> g \<and> g \<le> 255) \<and>
               (s < length vs \<and> length vs < e \<longrightarrow>
                  g * (real e - real s) = 255 * avg * (real (length vs) - real s) \<and>
                  (g \<noteq> 255 * avg) = ((\<Sum>k = s..<length vs. vs ! k) \<noteq> 0))))"
proof (intro conjI impI)
  assume "ranges unknownName = None"
  then show "getBandEnergy a spectrum unknownName = returns (Fin 0)"
    using assms by (simp add: getBandEnergy_def)
next
  assume r: "ranges bandName = Some \<lparr>range_start = Fin (real s), range_end = Fin (real e)\<rparr>"
  let ?u = "min e (length vs)"
  let ?S = "\<Sum>k = s..<?u. vs ! k"
  let ?g = "if s < e then ?S / (real e - real s) else 0"
  let ?avg = "if s < ?u then ?S / real (?u - s) / 255 else 0"
  have G: "getBandEnergy a (map Fin vs) bandName = returns (Fin ?g)"
    by (rule getBandEnergy_nat [OF assms r]) simp_all
  have A: "getAverageEnergy a (map Fin vs) bandName = returns (Fin ?avg)"
    by (rule getAverageEnergy_nat [OF assms(2) r]) simp_all
  have z: "e \<le> s \<longrightarrow> ?g = 0" by simp
  have b: "0 \<le> ?g \<and> ?g \<le> 255" if v: "\<forall>v\<in>set vs. 0 \<le> v \<and> v \<le> 255"
  proof (cases "s < e")
    case True
    have b1: "0 \<le> ?S" and b2: "?S \<le> 255 * real (?u - s)"
      using clamped_sum_bounds [OF v, of ?u s] by simp_all
    have "real (?u - s) \<le> real e - real s" using True by simp
    then have "?S \<le> 255 * (real e - real s)" using b2 by simp
    moreover have "0 < real e - real s" using True by simp
    ultimately show ?thesis using b1 True by (simp add: field_simps)
  next
    case False
    then show ?thesis by simp
  qed
  have rel: "?g * (real e - real s) = 255 * ?avg * (real (length vs) - real s) \<and>
             (?g \<noteq> 255 * ?avg) = ((\<Sum>k = s..<length vs. vs ! k) \<noteq> 0)"
    if lt: "s < length vs \<and> length vs < e"
  proof -
    have u: "?u = length vs" using lt by simp
    have p1: "0 < real e - real s" and p2: "0 < real (length vs) - real s"
      and ne: "real e - real s \<noteq> real (length vs) - real s"
      using lt by simp_all
    have se: "s < e" using lt by simp
    show ?thesis
      unfolding u using p1 p2 ne se lt
      by (auto simp: field_simps of_nat_diff)
  qed
  show "\<exists>g avg.
          getBandEnergy a (map Fin vs) bandName = returns (Fin g) \<and>
          getAverageEnergy a (map Fin vs) bandName = returns (Fin avg) \<and>
          g = (if s < e
               then (\<Sum>k = s..<min e (length vs). vs ! k) / (real e - real s)
               else 0) \<and>
          (e \<le> s \<longrightarrow> g = 0) \<and>
          ((\<forall>v\<in>set vs. 0 \<le> v \<and> v \<le> 255) \<longrightarrow> 0 \<le> g \<and> g \<le> 255) \<and>
          (s < length vs \<and> length vs < e \<longrightarrow>
             g * (real e - real s) = 255 * avg * (real (length vs) - real s) \<and>
             (g \<noteq> 255 * avg) = ((\<Sum>k = s..<length vs. vs ! k) \<noteq> 0))"
    using G A z b rel by blast
qed

theorem getBandEnergy_unclamped_width_witness:
  "getBandEnergy
     ((AudioAnalyzer (Fin 1024) (Fin 0.8))
        \<lparr>fft := True,
         binRanges := Some (map_of [(''AIR'', \<lparr>range_start = Fin 1, range_end = Fin 5\<rparr>)])\<rparr>)
     [Fin 10, Fin 20, Fin 30] ''SNARE'' = returns (Fin 0) \<and>
   getBandEnergy
     ((AudioAnalyzer (Fin 1024) (Fin 0.8))
        \<lparr>fft := True,
         binRanges := Some (map_of [(''AIR'', \<lparr>range_start = Fin 1, range_end = Fin 5\<rparr>)])\<rparr>)
     [Fin 10, Fin 20, Fin 30] ''AIR'' = returns (Fin (25 / 2))"
  using getBandEnergy_unclamped_width [of "(AudioAnalyzer (Fin 1024) (Fin 0.8))
        \<lparr>fft := True,
         binRanges := Some (map_of [(''AIR'', \<lparr>range_start = Fin 1, range_end = Fin 5\<rparr>)])\<rparr>"
      "map_of [(''AIR'', \<lparr>range_start = Fin 1, range_end = Fin 5\<rparr>)]" "''SNARE''"
      "[Fin 10, Fin 20, Fin 30]" "''AIR''" 1 5 "[10, 20, 30]"]
  by (auto simp: eval_nat_numeral)

text \<open>
  Claim C10, as stated, fails on a silent spectrum.  At a sample rate of 22050 Hz and
  transform size 1024 the band \<^verbatim>\<open>AIR\<close> maps to the range from 371 to 929, which ends
  beyond the 512 bins of the spectrum; when all bins are 0, \<^verbatim>\<open>getBandEnergy\<close> returns
  \<open>0 / 558 = 0\<close> and the internal average is \<open>0 / 141 / 255 = 0\<close>, so the result equals
  255 times the clamped average.
\<close>

theorem getBandEnergy_silence_equals_average:
  "getBinRange \<lparr>band_name = ''Air'', band_min = Fin 8000, band_max = Fin 20000,
                 band_color = (255, 255, 255)\<rparr> (Fin 22050) (Fin 1024) =
     returns \<lparr>range_start = Fin 371, range_end = Fin 929\<rparr> \<and>
   getBandEnergy
     ((AudioAnalyzer (Fin 1024) (Fin 0.8))
        \<lparr>fft := True,
         binRanges := Some (map_of [(''AIR'', \<lparr>range_start = Fin 371, range_end = Fin 929\<rparr>)])\<rparr>)
     (replicate 512 (Fin 0)) ''AIR'' = returns (Fin 0) \<and>
   getAverageEnergy
     ((AudioAnalyzer (Fin 1024) (Fin 0.8))
        \<lparr>fft := True,
         binRanges := Some (map_of [(''AIR'', \<lparr>range_start = Fin 371, range_end = Fin 929\<rparr>)])\<rparr>)
     (replicate 512 (Fin 0)) ''AIR'' = returns (Fin 0) \<and>
   js_mul (Fin 255) (Fin 0) = Fin 0"
proof -
  let ?a = "(AudioAnalyzer (Fin 1024) (Fin 0.8))
        \<lparr>fft := True,
         binRanges := Some (map_of [(''AIR'', \<lparr>range_start = Fin 371, range_end = Fin 929\<rparr>)])\<rparr>"
  have z: "(\<Sum>k = 371..<min 929 (length (replicate 512 (0::real))). replicate 512 (0::real) ! k) = 0"
    by (rule sum.neutral) simp
  have 1: "getBinRange \<lparr>band_name = ''Air'', band_min = Fin 8000, band_max = Fin 20000,
                 band_color = (255, 255, 255)\<rparr> (Fin 22050) (Fin 1024) =
     returns \<lparr>range_start = Fin 371, range_end = Fin 929\<rparr>"
    by (simp add: getBinRange_def)
  have 2: "getBandEnergy ?a (replicate 512 (Fin 0)) ''AIR'' = returns (Fin 0)"
    using getBandEnergy_nat [of ?a "map_of [(''AIR'', \<lparr>range_start = Fin 371, range_end = Fin 929\<rparr>)]"
        "''AIR''" "\<lparr>range_start = Fin 371, range_end = Fin 929\<rparr>" 371 929 "replicate 512 0"]
    by (simp add: z)
  have 3: "getAverageEnergy ?a (replicate 512 (Fin 0)) ''AIR'' = returns (Fin 0)"
    using getAverageEnergy_nat [of ?a "map_of [(''AIR'', \<lparr>range_start = Fin 371, range_end = Fin 929\<rparr>)]"
        "''AIR''" "\<lparr>range_start = Fin 371, range_end = Fin 929\<rparr>" 371 929 "replicate 512 0"]
    by (simp add: z)
  have 4: "js_mul (Fin 255) (Fin 0) = Fin 0"
    by (simp add: js_mul_def signed_zero_def)
  from 1 2 3 4 show ?thesis by blast
qed

section \<open>Properties of the analysis cycle\<close>

lemma getAverageEnergy_energyCache [simp]:
  "getAverageEnergy (a\<lparr>energyCache := c\<rparr>) spectrum bandName = getAverageEnergy a spectrum bandName"
  by (simp add: getAverageEnergy_def)

lemma updateHistory_fields [simp]:
  "smoothedEnergy (updateHistory a) = smoothedEnergy a"
  "peakDecay (updateHistory a) = peakDecay a"
  "peakThreshold (updateHistory a) = peakThreshold a"
  "peaks (updateHistory a) = peaks a"
  "energyCache (updateHistory a) = energyCache a"
  "binRanges (updateHistory a) = binRanges a"
  "fft (updateHistory a) = fft a"
  "mic (updateHistory a) = mic a"
  "isListening (updateHistory a) = isListening a"
  "isInitialized (updateHistory a) = isInitialized a"
  "historySize (updateHistory a) = historySize a"
  "fftSize (updateHistory a) = fftSize a"
  "smoothing (updateHistory a) = smoothing a"
  by (simp_all add: updateHistory_def)

lemma update_listening:
  assumes "fft a" and "isListening a"
    and "getAverageEnergy a spectrum ''DRUMS_LOW'' = returns dl"
    and "getAverageEnergy a spectrum ''DRUMS_MID'' = returns dm"
    and "getAverageEnergy a spectrum ''DRUMS_HIGH'' = returns dh"
    and "getAverageEnergy a spectrum ''VOCALS_LOW'' = returns vl"
    and "getAverageEnergy a spectrum ''VOCALS_MID'' = returns vm"
    and "getAverageEnergy a spectrum ''VOCALS_HIGH'' = returns vh"
    and "getAverageEnergy a spectrum ''SUB_BASS'' = returns bs"
    and "getAverageEnergy a spectrum ''BASS'' = returns bm"
    and "getAverageEnergy a spectrum ''INSTRUMENTS_HIGH'' = returns hi"
    and "getAverageEnergy a spectrum ''AIR'' = returns ha"
  shows "\<exists>a'. update a spectrum = returns a' \<and>
           drums_low (energyCache a') = dl \<and> drums_mid (energyCache a') = dm \<and>
           drums_high (energyCache a') = dh \<and>
           vocals_low (energyCache a') = vl \<and> vocals_mid (energyCache a') = vm \<and>
           vocals_high (energyCache a') = vh \<and>
           bass_sub (energyCache a') = bs \<and> bass_main (energyCache a') = bm \<and>
           highs_instruments (energyCache a') = hi \<and> highs_air (energyCache a') = ha \<and>
           drums_combined (energyCache a') =
             calculateWeightedEnergy [dl, dm, dh] (weights VisualizerGroups_DRUMS) \<and>
           vocals_combined (energyCache a') =
             calculateWeightedEnergy [vl, vm, vh] (weights VisualizerGroups_VOCALS) \<and>
           bass_combined (energyCache a') =
             calculateWeightedEnergy [bs, bm] (weights VisualizerGroups_BASS) \<and>
           highs_combined (energyCache a') =
             calculateWeightedEnergy [hi, ha] (weights VisualizerGroups_HIGHS) \<and>
           (\<forall>cat. smoothedEnergy a' cat =
              js_add (smoothedEnergy a cat)
                (js_mul (js_sub (combined (energyCache a') cat) (smoothedEnergy a cat)) (Fin 0.3))) \<and>
           (\<forall>cat. peaks a' cat =
              (peaks a cat)\<lparr>peak_value :=
                 (if js_gt (smoothedEnergy a' cat) (js_mul (peak_value (peaks a cat)) (peakDecay a)) \<and>
                     js_gt (smoothedEnergy a' cat) (peakThreshold a)
                  then smoothedEnergy a' cat
                  else js_mul (peak_value (peaks a cat)) (peakDecay a)),
               isPeak :=
                 (js_gt (smoothedEnergy a' cat) (js_mul (peak_value (peaks a cat)) (peakDecay a)) \<and>
                  js_gt (smoothedEnergy a' cat) (peakThreshold a))\<rparr>) \<and>
           binRanges a' = binRanges a \<and> fft a' = fft a \<and> isListening a' = isListening a \<and>
           peakThreshold a' = peakThreshold a \<and> peakDecay a' = peakDecay a"
proof -
  have split: "(\<forall>cat. P cat) = (P Drums \<and> P Vocals \<and> P Bass \<and> P Highs)" for P
    by (metis category.exhaust)
  show ?thesis
    using assms
    by (simp add: update_def Let_def detectPeaks_peaks split)
qed


lemma and_then_eq_returns:
  "(and_then m f = returns y) = (\<exists>v. m = returns v \<and> f v = returns y)"
  by (cases m) (auto simp: and_then_def returns_def split: sum.splits)

lemma update_inversion:
  assumes "update a spectrum = returns a'" and "fft a" and "isListening a"
  shows "\<exists>dl dm dh vl vm vh bs bm hi ha.
           getAverageEnergy a spectrum ''DRUMS_LOW'' = returns dl \<and>
           getAverageEnergy a spectrum ''DRUMS_MID'' = returns dm \<and>
           getAverageEnergy a spectrum ''DRUMS_HIGH'' = returns dh \<and>
           getAverageEnergy a spectrum ''VOCALS_LOW'' = returns vl \<and>
           getAverageEnergy a spectrum ''VOCALS_MID'' = returns vm \<and>
           getAverageEnergy a spectrum ''VOCALS_HIGH'' = returns vh \<and>
           getAverageEnergy a spectrum ''SUB_BASS'' = returns bs \<and>
           getAverageEnergy a spectrum ''BASS'' = returns bm \<and>
           getAverageEnergy a spectrum ''INSTRUMENTS_HIGH'' = returns hi \<and>
           getAverageEnergy a spectrum ''AIR'' = returns ha"
  using assms
  by (simp add: update_def Let_def and_then_eq_returns) blast

lemma getAverageEnergy_returns:
  assumes "binRanges a = Some ranges"
    and "\<forall>name rng. ranges name = Some rng \<longrightarrow> range_start rng \<noteq> NegInf"
  shows "\<exists>v. getAverageEnergy a spectrum bandName = returns v"
proof (cases "ranges bandName")
  case None
  then show ?thesis using assms(1) by (simp add: getAverageEnergy_def)
next
  case (Some rng)
  then have "range_start rng \<noteq> NegInf" using assms(2) by blast
  then obtain res where
    "getAverageEnergy_loop spectrum rng (range_start rng) (Fin 0) 0 = Some res"
    using getAverageEnergy_loop_terminates by blast
  then show ?thesis
    using assms(1) Some by (cases res) (simp add: getAverageEnergy_def)
qed

text \<open>
  Claim C8.  When the analyzer is not listening, \<^verbatim>\<open>update()\<close> returns at its guard:
  the call returns and the state after it is the state before it, so the energy cache,
  the smoothed energies, the peak entries, the two history arrays and the history index
  are unchanged.
\<close>

theorem update_not_listening_noop:
  assumes "\<not> isListening a"
  shows "update a spectrum = returns a"
  using assms by (simp add: update_def)

theorem update_not_listening_noop_witness:
  "\<not> isListening (AudioAnalyzer (Fin 1024) (Fin 0.8)) \<and>
   update (AudioAnalyzer (Fin 1024) (Fin 0.8)) [Fin 10, Fin 20] =
     returns (AudioAnalyzer (Fin 1024) (Fin 0.8))"
  using update_not_listening_noop [of "AudioAnalyzer (Fin 1024) (Fin 0.8)" "[Fin 10, Fin 20]"]
  by (simp add: AudioAnalyzer_def)

lemma calculateWeightedEnergy_3:
  "calculateWeightedEnergy [x, y, z] [w1, w2, w3] =
     js_add (js_add (js_add (Fin 0) (js_mul x w1)) (js_mul y w2)) (js_mul z w3)"
  by (simp add: calculateWeightedEnergy_def eval_nat_numeral)

text \<open>
  Claim C6.  While the analyzer is listening (with an FFT object, a bin mapping, and no
  range starting at \<open>-\<infinity>\<close>, so that every band loop ends), \<^verbatim>\<open>update()\<close> returns, and
  in the state it leaves every category's smoothed energy is the previous smoothed energy
  plus 0.3 times the difference between the category's combined energy of this cycle and
  the previous smoothed energy: one step of the moving average, applied once.  The
  combined energy is the weighted sum, with the weights of the category's group, of the
  band averages that \<^verbatim>\<open>_getAverageEnergy\<close> returns for the spectrum of this cycle.
\<close>

theorem update_smooths_each_category_once:
  assumes "fft a" and "isListening a" and "binRanges a = Some ranges"
    and "\<forall>name rng. ranges name = Some rng \<longrightarrow> range_start rng \<noteq> NegInf"
  shows "\<exists>a'. update a spectrum = returns a' \<and>
           (\<forall>cat. smoothedEnergy a' cat =
              js_add (smoothedEnergy a cat)
                (js_mul (js_sub (combined (energyCache a') cat) (smoothedEnergy a cat)) (Fin 0.3))) \<and>
           (\<forall>cat s r. smoothedEnergy a cat = Fin s \<and> combined (energyCache a') cat = Fin r \<longrightarrow>
              smoothedEnergy a' cat = Fin (s + (r - s) * 0.3)) \<and>
           combined (energyCache a') Drums =
             calculateWeightedEnergy
               [drums_low (energyCache a'), drums_mid (energyCache a'), drums_high (energyCache a')]
               [Fin 0.5, Fin 0.3, Fin 0.2] \<and>
           combined (energyCache a') Vocals =
             calculateWeightedEnergy
               [vocals_low (energyCache a'), vocals_mid (energyCache a'), vocals_high (energyCache a')]
               [Fin 0.2, Fin 0.5, Fin 0.3] \<and>
           combined (energyCache a') Bass =
             calculateWeightedEnergy
               [bass_sub (energyCache a'), bass_main (energyCache a')] [Fin 0.4, Fin 0.6] \<and>
           combined (energyCache a') Highs =
             calculateWeightedEnergy
               [highs_instruments (energyCache a'), highs_air (energyCache a')] [Fin 0.6, Fin 0.4] \<and>
           getAverageEnergy a spectrum ''DRUMS_LOW'' = returns (drums_low (energyCache a')) \<and>
           getAverageEnergy a spectrum ''DRUMS_MID'' = returns (drums_mid (energyCache a')) \<and>
           getAverageEnergy a spectrum ''DRUMS_HIGH'' = returns (drums_high (energyCache a')) \<and>
           getAverageEnergy a spectrum ''VOCALS_LOW'' = returns (vocals_low (energyCache a')) \<and>
           getAverageEnergy a spectrum ''VOCALS_MID'' = returns (vocals_mid (energyCache a')) \<and>
           getAverageEnergy a spectrum ''VOCALS_HIGH'' = returns (vocals_high (energyCache a')) \<and>
           getAverageEnergy a spectrum ''SUB_BASS'' = returns (bass_sub (energyCache a')) \<and>
           getAverageEnergy a spectrum ''BASS'' = returns (bass_main (energyCache a')) \<and>
           getAverageEnergy a spectrum ''INSTRUMENTS_HIGH'' =
             returns (highs_instruments (energyCache a')) \<and>
           getAverageEnergy a spectrum ''AIR'' = returns (highs_air (energyCache a'))"
proof -
  note r = getAverageEnergy_returns [OF assms(3,4), of spectrum]
  obtain dl where dl: "getAverageEnergy a spectrum ''DRUMS_LOW'' = returns dl" using r by blast
  obtain dm where dm: "getAverageEnergy a spectrum ''DRUMS_MID'' = returns dm" using r by blast
  obtain dh where dh: "getAverageEnergy a spectrum ''DRUMS_HIGH'' = returns dh" using r by blast
  obtain vl where vl: "getAverageEnergy a spectrum ''VOCALS_LOW'' = returns vl" using r by blast
  obtain vm where vm: "getAverageEnergy a spectrum ''VOCALS_MID'' = returns vm" using r by blast
  obtain vh where vh: "getAverageEnergy a spectrum ''VOCALS_HIGH'' = returns vh" using r by blast
  obtain bs where bs: "getAverageEnergy a spectrum ''SUB_BASS'' = returns bs" using r by blast
  obtain bm where bm: "getAverageEnergy a spectrum ''BASS'' = returns bm" using r by blast
  obtain hi where hi: "getAverageEnergy a spectrum ''INSTRUMENTS_HIGH'' = returns hi"
    using r by blast
  obtain ha where ha: "getAverageEnergy a spectrum ''AIR'' = returns ha" using r by blast
  obtain a' where u: "update a spectrum = returns a'"
    and c: "drums_low (energyCache a') = dl" "drums_mid (energyCache a') = dm"
      "drums_high (energyCache a') = dh" "vocals_low (energyCache a') = vl"
      "vocals_mid (energyCache a') = vm" "vocals_high (energyCache a') = vh"
      "bass_sub (energyCache a') = bs" "bass_main (energyCache a') = bm"
      "highs_instruments (energyCache a') = hi" "highs_air (energyCache a') = ha"
    and w: "drums_combined (energyCache a') =
             calculateWeightedEnergy [dl, dm, dh] (weights VisualizerGroups_DRUMS)"
      "vocals_combined (energyCache a') =
             calculateWeightedEnergy [vl, vm, vh] (weights VisualizerGroups_VOCALS)"
      "bass_combined (energyCache a') =
             calculateWeightedEnergy [bs, bm] (weights VisualizerGroups_BASS)"
      "highs_combined (energyCache a') =
             calculateWeightedEnergy [hi, ha] (weights VisualizerGroups_HIGHS)"
    and sm: "\<forall>cat. smoothedEnergy a' cat =
              js_add (smoothedEnergy a cat)
                (js_mul (js_sub (combined (energyCache a') cat) (smoothedEnergy a cat)) (Fin 0.3))"
    using update_listening [OF assms(1,2) dl dm dh vl vm vh bs bm hi ha] by blast
  have fin: "\<forall>cat s r. smoothedEnergy a cat = Fin s \<and> combined (energyCache a') cat = Fin r \<longrightarrow>
              smoothedEnergy a' cat = Fin (s + (r - s) * 0.3)"
    using sm by simp
  show ?thesis
    apply (rule exI [of _ a'])
    apply (intro conjI)
                    apply (rule u)
                   apply (rule sm)
                  apply (rule fin)
    by (simp_all add: c w dl dm dh vl vm vh bs bm hi ha VisualizerGroups_DRUMS_def
        VisualizerGroups_VOCALS_def VisualizerGroups_BASS_def VisualizerGroups_HIGHS_def)
qed


theorem update_smooths_each_category_once_witness:
  "\<exists>a'. update
          ((AudioAnalyzer (Fin 1024) (Fin 0.8))
             \<lparr>fft := True, isListening := True,
              binRanges := Some (map_of [(''DRUMS_LOW'', \<lparr>range_start = Fin 0, range_end = Fin 1\<rparr>)])\<rparr>)
          [Fin 255] = returns a' \<and>
        combined (energyCache a') Drums = Fin (1 / 2) \<and>
        smoothedEnergy a' Drums = Fin (3 / 20)"
proof -
  let ?r = "map_of [(''DRUMS_LOW'', \<lparr>range_start = Fin 0, range_end = Fin 1\<rparr>)]"
  let ?A = "(AudioAnalyzer (Fin 1024) (Fin 0.8))
             \<lparr>fft := True, isListening := True, binRanges := Some ?r\<rparr>"
  have hyp: "fft ?A" "isListening ?A" "binRanges ?A = Some ?r"
    "\<forall>name rng. ?r name = Some rng \<longrightarrow> range_start rng \<noteq> NegInf"
    by (simp_all add: AudioAnalyzer_def)
  have 1: "getAverageEnergy ?A [Fin 255] ''DRUMS_LOW'' = returns (Fin 1)"
    using getAverageEnergy_nat [of ?A ?r "''DRUMS_LOW''"
        "\<lparr>range_start = Fin 0, range_end = Fin 1\<rparr>" 0 1 "[255]"]
    by simp
  have 2: "getAverageEnergy ?A [Fin 255] ''DRUMS_MID'' = returns (Fin 0)"
    and 3: "getAverageEnergy ?A [Fin 255] ''DRUMS_HIGH'' = returns (Fin 0)"
    by (simp_all add: getAverageEnergy_def)
  obtain a' where u: "update ?A [Fin 255] = returns a'"
    and sm: "\<forall>cat. smoothedEnergy a' cat =
              js_add (smoothedEnergy ?A cat)
                (js_mul (js_sub (combined (energyCache a') cat) (smoothedEnergy ?A cat)) (Fin 0.3))"
    and cd: "combined (energyCache a') Drums =
             calculateWeightedEnergy
               [drums_low (energyCache a'), drums_mid (energyCache a'), drums_high (energyCache a')]
               [Fin 0.5, Fin 0.3, Fin 0.2]"
    and g: "getAverageEnergy ?A [Fin 255] ''DRUMS_LOW'' = returns (drums_low (energyCache a'))"
      "getAverageEnergy ?A [Fin 255] ''DRUMS_MID'' = returns (drums_mid (energyCache a'))"
      "getAverageEnergy ?A [Fin 255] ''DRUMS_HIGH'' = returns (drums_high (energyCache a'))"
    using update_smooths_each_category_once [OF hyp, of "[Fin 255]"] by blast
  have e: "drums_low (energyCache a') = Fin 1" "drums_mid (energyCache a') = Fin 0"
    "drums_high (energyCache a') = Fin 0"
    using g 1 2 3 by simp_all
  have c: "combined (energyCache a') Drums = Fin (1 / 2)"
    unfolding cd e by (simp add: calculateWeightedEnergy_3 js_mul_def signed_zero_def)
  have "smoothedEnergy a' Drums = Fin (3 / 20)"
    using sm [rule_format, of Drums] c by (simp add: AudioAnalyzer_def)
  with u c show ?thesis by blast
qed

lemma getAverageEnergy_same_ranges:
  "binRanges b = binRanges a \<Longrightarrow>
     getAverageEnergy b spectrum bandName = getAverageEnergy a spectrum bandName"
  by (simp add: getAverageEnergy_def)

lemma update_same_ranges:
  assumes "update a spectrum = returns a1" and "fft a" and "isListening a"
    and "binRanges b = binRanges a" and "fft b" and "isListening b"
  shows "\<exists>b1. update b spectrum = returns b1 \<and>
           (\<forall>cat. combined (energyCache b1) cat = combined (energyCache a1) cat) \<and>
           (\<forall>cat. smoothedEnergy b1 cat =
              js_add (smoothedEnergy b cat)
                (js_mul (js_sub (combined (energyCache a1) cat) (smoothedEnergy b cat)) (Fin 0.3))) \<and>
           binRanges b1 = binRanges a \<and> fft b1 \<and> isListening b1"
proof -
  obtain dl dm dh vl vm vh bs bm hi ha where
    g: "getAverageEnergy a spectrum ''DRUMS_LOW'' = returns dl"
      "getAverageEnergy a spectrum ''DRUMS_MID'' = returns dm"
      "getAverageEnergy a spectrum ''DRUMS_HIGH'' = returns dh"
      "getAverageEnergy a spectrum ''VOCALS_LOW'' = returns vl"
      "getAverageEnergy a spectrum ''VOCALS_MID'' = returns vm"
      "getAverageEnergy a spectrum ''VOCALS_HIGH'' = returns vh"
      "getAverageEnergy a spectrum ''SUB_BASS'' = returns bs"
      "getAverageEnergy a spectrum ''BASS'' = returns bm"
      "getAverageEnergy a spectrum ''INSTRUMENTS_HIGH'' = returns hi"
      "getAverageEnergy a spectrum ''AIR'' = returns ha"
    using update_inversion [OF assms(1,2,3)] by blast
  note gb = g [folded getAverageEnergy_same_ranges [OF assms(4)]]
  obtain a' where ua: "update a spectrum = returns a'"
    and wa: "drums_combined (energyCache a') =
               calculateWeightedEnergy [dl, dm, dh] (weights VisualizerGroups_DRUMS)"
      "vocals_combined (energyCache a') =
               calculateWeightedEnergy [vl, vm, vh] (weights VisualizerGroups_VOCALS)"
      "bass_combined (energyCache a') =
               calculateWeightedEnergy [bs, bm] (weights VisualizerGroups_BASS)"
      "highs_combined (energyCache a') =
               calculateWeightedEnergy [hi, ha] (weights VisualizerGroups_HIGHS)"
    using update_listening [OF assms(2,3) g] by blast
  have a': "a' = a1" using ua assms(1) by simp
  obtain b1 where ub: "update b spectrum = returns b1"
    and wb: "drums_combined (energyCache b1) =
               calculateWeightedEnergy [dl, dm, dh] (weights VisualizerGroups_DRUMS)"
      "vocals_combined (energyCache b1) =
               calculateWeightedEnergy [vl, vm, vh] (weights VisualizerGroups_VOCALS)"
      "bass_combined (energyCache b1) =
               calculateWeightedEnergy [bs, bm] (weights VisualizerGroups_BASS)"
      "highs_combined (energyCache b1) =
               calculateWeightedEnergy [hi, ha] (weights VisualizerGroups_HIGHS)"
    and sb: "\<forall>cat. smoothedEnergy b1 cat =
              js_add (smoothedEnergy b cat)
                (js_mul (js_sub (combined (energyCache b1) cat) (smoothedEnergy b cat)) (Fin 0.3))"
    and fb: "binRanges b1 = binRanges b" "fft b1 = fft b" "isListening b1 = isListening b"
    using update_listening [OF assms(5,6) gb] by blast
  have eq: "combined (energyCache b1) cat = combined (energyCache a1) cat" for cat
    using wa wb a' by (cases cat) simp_all
  show ?thesis
    using ub eq sb fb assms(4,5,6) by (intro exI [of _ b1]) simp
qed

lemma cycles_constant_spectrum:
  assumes "update a spectrum = returns a1" and "fft a" and "isListening a"
    and "combined (energyCache a1) cat = Fin v"
  shows "fft b \<Longrightarrow> isListening b \<Longrightarrow> binRanges b = binRanges a \<Longrightarrow>
         smoothedEnergy b cat = Fin s \<Longrightarrow>
         \<exists>bn. cycles b (replicate n spectrum) = returns bn \<and>
              smoothedEnergy bn cat = Fin (v + (s - v) * 0.7 ^ n) \<and>
              (0 < n \<longrightarrow> combined (energyCache bn) cat = Fin v)"
proof (induction n arbitrary: b s)
  case 0
  then show ?case by simp
next
  case (Suc n)
  obtain b1 where ub: "update b spectrum = returns b1"
    and cb: "combined (energyCache b1) cat = combined (energyCache a1) cat"
    and sb: "smoothedEnergy b1 cat =
              js_add (smoothedEnergy b cat)
                (js_mul (js_sub (combined (energyCache a1) cat) (smoothedEnergy b cat)) (Fin 0.3))"
    and fb: "binRanges b1 = binRanges a" "fft b1" "isListening b1"
    using update_same_ranges [OF assms(1,2,3) Suc.prems(3,1,2)] by blast
  have s1: "smoothedEnergy b1 cat = Fin (s + (v - s) * 0.3)"
    using sb by (simp add: assms(4) Suc.prems(4))
  obtain bn where cn: "cycles b1 (replicate n spectrum) = returns bn"
    and sn: "smoothedEnergy bn cat = Fin (v + (s + (v - s) * 0.3 - v) * 0.7 ^ n)"
    and en: "0 < n \<longrightarrow> combined (energyCache bn) cat = Fin v"
    using Suc.IH [OF fb(2,3,1) s1] by blast
  have 1: "cycles b (replicate (Suc n) spectrum) = returns bn"
    by (simp add: ub cn)
  have "s + (v - s) * 0.3 - v = (s - v) * 0.7" by argo
  then have 2: "smoothedEnergy bn cat = Fin (v + (s - v) * 0.7 ^ Suc n)"
    using sn by simp
  have 3: "combined (energyCache bn) cat = Fin v"
  proof (cases n)
    case 0
    then have "bn = b1" using cn by simp
    then show ?thesis using cb assms(4) by simp
  next
    case (Suc m)
    then show ?thesis using en by simp
  qed
  from 1 2 3 show ?case by blast
qed

text \<open>
  Claim C7.  Let a listening analyzer run \<^verbatim>\<open>update()\<close> over and over on the same
  spectrum, so that the combined raw energy of a category is the same finite value \<open>v\<close>
  in every cycle, starting from a finite smoothed value \<open>s0\<close>.  Every cycle returns; the
  smoothed value after \<open>n\<close> cycles is \<open>v + (s0 - v) * 0.7 ^ n\<close>; its distance from
  \<open>v\<close> never grows from one cycle to the next; and it converges to \<open>v\<close>.  (Finite
  values are exact reals here, so the limit is \<open>v\<close> itself.)
\<close>

theorem smoothing_converges_monotonically:
  assumes "fft a" and "isListening a"
    and "update a spectrum = returns a1" and "combined (energyCache a1) cat = Fin v"
    and "smoothedEnergy a cat = Fin s0"
  shows "\<exists>f. (\<forall>n. \<exists>an. cycles a (replicate n spectrum) = returns an \<and>
                    smoothedEnergy an cat = Fin (f n) \<and>
                    (0 < n \<longrightarrow> combined (energyCache an) cat = Fin v)) \<and>
             (\<forall>n. f n = v + (s0 - v) * 0.7 ^ n) \<and>
             (\<forall>n. \<bar>f (Suc n) - v\<bar> \<le> \<bar>f n - v\<bar>) \<and>
             f \<longlonglongrightarrow> v"
proof -
  let ?f = "\<lambda>n. v + (s0 - v) * 0.7 ^ n"
  have 1: "\<forall>n. \<exists>an. cycles a (replicate n spectrum) = returns an \<and>
                    smoothedEnergy an cat = Fin (?f n) \<and>
                    (0 < n \<longrightarrow> combined (energyCache an) cat = Fin v)"
    using cycles_constant_spectrum [OF assms(3,1,2,4) assms(1,2) refl assms(5)] by blast
  have 2: "\<forall>n. \<bar>?f (Suc n) - v\<bar> \<le> \<bar>?f n - v\<bar>"
  proof
    fix n
    have "\<bar>?f (Suc n) - v\<bar> = 0.7 * \<bar>?f n - v\<bar>"
      by (simp add: abs_mult)
    also have "\<dots> \<le> \<bar>?f n - v\<bar>"
      by (simp add: mult_left_le_one_le)
    finally show "\<bar>?f (Suc n) - v\<bar> \<le> \<bar>?f n - v\<bar>" .
  qed
  have lim: "(\<lambda>n. (0.7::real) ^ n) \<longlonglongrightarrow> 0"
    by (rule LIMSEQ_realpow_zero) simp_all
  have "(\<lambda>n. (s0 - v) * 0.7 ^ n) \<longlonglongrightarrow> (s0 - v) * 0"
    by (rule tendsto_mult_left [OF lim])
  then have "(\<lambda>n. v + (s0 - v) * 0.7 ^ n) \<longlonglongrightarrow> v + (s0 - v) * 0"
    by (rule tendsto_add [OF tendsto_const])
  then have 3: "?f \<longlonglongrightarrow> v" by simp
  show ?thesis
    using 1 2 3 by (intro exI [of _ ?f]) simp
qed

lemma update_example:
  "\<exists>a'. update
          ((AudioAnalyzer (Fin 1024) (Fin 0.8))
             \<lparr>fft := True, isListening := True,
              binRanges := Some (map_of [(''DRUMS_LOW'', \<lparr>range_start = Fin 0, range_end = Fin 1\<rparr>)])\<rparr>)
          [Fin 255] = returns a' \<and>
        combined (energyCache a') Drums = Fin (1 / 2)"
proof -
  let ?r = "map_of [(''DRUMS_LOW'', \<lparr>range_start = Fin 0, range_end = Fin 1\<rparr>)]"
  let ?A = "(AudioAnalyzer (Fin 1024) (Fin 0.8))
             \<lparr>fft := True, isListening := True, binRanges := Some ?r\<rparr>"
  have 1: "getAverageEnergy ?A [Fin 255] ''DRUMS_LOW'' = returns (Fin 1)"
    using getAverageEnergy_nat [of ?A ?r "''DRUMS_LOW''"
        "\<lparr>range_start = Fin 0, range_end = Fin 1\<rparr>" 0 1 "[255]"]
    by simp
  have 0: "getAverageEnergy ?A [Fin 255] ''DRUMS_MID'' = returns (Fin 0)"
    "getAverageEnergy ?A [Fin 255] ''DRUMS_HIGH'' = returns (Fin 0)"
    "getAverageEnergy ?A [Fin 255] ''VOCALS_LOW'' = returns (Fin 0)"
    "getAverageEnergy ?A [Fin 255] ''VOCALS_MID'' = returns (Fin 0)"
    "getAverageEnergy ?A [Fin 255] ''VOCALS_HIGH'' = returns (Fin 0)"
    "getAverageEnergy ?A [Fin 255] ''SUB_BASS'' = returns (Fin 0)"
    "getAverageEnergy ?A [Fin 255] ''BASS'' = returns (Fin 0)"
    "getAverageEnergy ?A [Fin 255] ''INSTRUMENTS_HIGH'' = returns (Fin 0)"
    "getAverageEnergy ?A [Fin 255] ''AIR'' = returns (Fin 0)"
    by (simp_all add: getAverageEnergy_def)
  have l: "fft ?A" "isListening ?A" by simp_all
  obtain a' where u: "update ?A [Fin 255] = returns a'"
    and w: "drums_combined (energyCache a') =
             calculateWeightedEnergy [Fin 1, Fin 0, Fin 0] (weights VisualizerGroups_DRUMS)"
    using update_listening [OF l 1 0] by blast
  have "combined (energyCache a') Drums = Fin (1 / 2)"
    by (simp add: w VisualizerGroups_DRUMS_def calculateWeightedEnergy_3 js_mul_def signed_zero_def)
  with u show ?thesis by blast
qed

theorem smoothing_converges_monotonically_witness:
  "\<exists>f. (\<forall>n. \<exists>an.
           cycles
             ((AudioAnalyzer (Fin 1024) (Fin 0.8))
                \<lparr>fft := True, isListening := True,
                 binRanges :=
                   Some (map_of [(''DRUMS_LOW'', \<lparr>range_start = Fin 0, range_end = Fin 1\<rparr>)])\<rparr>)
             (replicate n [Fin 255]) = returns an \<and>
           smoothedEnergy an Drums = Fin (f n)) \<and>
        (\<forall>n. f n = 1 / 2 - 1 / 2 * 0.7 ^ n) \<and>
        f \<longlonglongrightarrow> 1 / 2"
proof -
  let ?A = "(AudioAnalyzer (Fin 1024) (Fin 0.8))
             \<lparr>fft := True, isListening := True,
              binRanges :=
                Some (map_of [(''DRUMS_LOW'', \<lparr>range_start = Fin 0, range_end = Fin 1\<rparr>)])\<rparr>"
  obtain a1 where u: "update ?A [Fin 255] = returns a1"
    and c: "combined (energyCache a1) Drums = Fin (1 / 2)"
    using update_example by blast
  have l: "fft ?A" "isListening ?A" by simp_all
  have s: "smoothedEnergy ?A Drums = Fin 0" by (simp add: AudioAnalyzer_def)
  obtain f where
    1: "\<forall>n. \<exists>an. cycles ?A (replicate n [Fin 255]) = returns an \<and>
                    smoothedEnergy an Drums = Fin (f n) \<and>
                    (0 < n \<longrightarrow> combined (energyCache an) Drums = Fin (1 / 2))"
    and 2: "\<forall>n. f n = 1 / 2 + (0 - 1 / 2) * 0.7 ^ n"
    and 3: "f \<longlonglongrightarrow> 1 / 2"
    using smoothing_converges_monotonically [OF l u c s] by blast
  from 1 have "\<forall>n. \<exists>an. cycles ?A (replicate n [Fin 255]) = returns an \<and>
                    smoothedEnergy an Drums = Fin (f n)"
    by blast
  moreover from 2 have "\<forall>n. f n = 1 / 2 - 1 / 2 * 0.7 ^ n" by simp
  ultimately show ?thesis using 3 by blast
qed

section \<open>Reachable states\<close>

lemma init_frame:
  assumes "init a env = returns (a', ok)"
  shows "peaks a' = peaks a \<and> smoothedEnergy a' = smoothedEnergy a \<and>
         peakThreshold a' = peakThreshold a \<and> peakDecay a' = peakDecay a"
  using assms
  by (auto simp: init_def split: if_splits audio_env.splits option.splits sum.splits)

lemma startListening_frame:
  assumes "startListening a env micStarts = returns (a', ok)"
  shows "peaks a' = peaks a \<and> smoothedEnergy a' = smoothedEnergy a \<and>
         peakThreshold a' = peakThreshold a \<and> peakDecay a' = peakDecay a"
proof -
  obtain a1 ok1 where
    i: "(if \<not> isInitialized a then init a env else returns (a, True)) = returns (a1, ok1)"
    and r: "(if \<not> ok1 then returns (a1, False)
             else if \<not> mic a1 \<or> \<not> micStarts \<or> \<not> fft a1 then returns (a1, False)
             else returns (a1\<lparr>isListening := True\<rparr>, True)) = returns (a', ok)"
    using assms by (auto simp: startListening_def and_then_eq_returns)
  have 1: "peaks a1 = peaks a \<and> smoothedEnergy a1 = smoothedEnergy a \<and>
         peakThreshold a1 = peakThreshold a \<and> peakDecay a1 = peakDecay a"
    using i init_frame by (auto split: if_splits)
  have 2: "peaks a' = peaks a1 \<and> smoothedEnergy a' = smoothedEnergy a1 \<and>
         peakThreshold a' = peakThreshold a1 \<and> peakDecay a' = peakDecay a1"
    using r by (auto split: if_splits)
  from 1 2 show ?thesis by simp
qed

lemma stopListening_frame:
  "peaks (stopListening a) = peaks a \<and> smoothedEnergy (stopListening a) = smoothedEnergy a \<and>
   peakThreshold (stopListening a) = peakThreshold a \<and> peakDecay (stopListening a) = peakDecay a"
  by (simp add: stopListening_def)

lemma dispose_frame:
  "peaks (dispose a) = peaks a \<and> smoothedEnergy (dispose a) = smoothedEnergy a \<and>
   peakThreshold (dispose a) = peakThreshold a \<and> peakDecay (dispose a) = peakDecay a"
  by (simp add: dispose_def stopListening_def)

lemma update_peaks:
  assumes "update a spectrum = returns a'"
  shows "peakThreshold a' = peakThreshold a \<and>
         (a' = a \<or>
          (\<forall>cat. isPeak (peaks a' cat) \<longrightarrow>
             peak_value (peaks a' cat) = smoothedEnergy a' cat \<and>
             js_gt (smoothedEnergy a' cat) (peakThreshold a)))"
proof (cases "fft a \<and> isListening a")
  case False
  then have "a' = a" using assms by (auto simp: update_def)
  then show ?thesis by simp
next
  case True
  then have l: "fft a" "isListening a" by simp_all
  obtain dl dm dh vl vm vh bs bm hi ha where
    g: "getAverageEnergy a spectrum ''DRUMS_LOW'' = returns dl"
      "getAverageEnergy a spectrum ''DRUMS_MID'' = returns dm"
      "getAverageEnergy a spectrum ''DRUMS_HIGH'' = returns dh"
      "getAverageEnergy a spectrum ''VOCALS_LOW'' = returns vl"
      "getAverageEnergy a spectrum ''VOCALS_MID'' = returns vm"
      "getAverageEnergy a spectrum ''VOCALS_HIGH'' = returns vh"
      "getAverageEnergy a spectrum ''SUB_BASS'' = returns bs"
      "getAverageEnergy a spectrum ''BASS'' = returns bm"
      "getAverageEnergy a spectrum ''INSTRUMENTS_HIGH'' = returns hi"
      "getAverageEnergy a spectrum ''AIR'' = returns ha"
    using update_inversion [OF assms l] by blast
  obtain a'' where u: "update a spectrum = returns a''"
    and p: "\<forall>cat. peaks a'' cat =
              (peaks a cat)\<lparr>peak_value :=
                 (if js_gt (smoothedEnergy a'' cat) (js_mul (peak_value (peaks a cat)) (peakDecay a)) \<and>
                     js_gt (smoothedEnergy a'' cat) (peakThreshold a)
                  then smoothedEnergy a'' cat
                  else js_mul (peak_value (peaks a cat)) (peakDecay a)),
               isPeak :=
                 (js_gt (smoothedEnergy a'' cat) (js_mul (peak_value (peaks a cat)) (peakDecay a)) \<and>
                  js_gt (smoothedEnergy a'' cat) (peakThreshold a))\<rparr>"
    and t: "peakThreshold a'' = peakThreshold a"
    using update_listening [OF l g] by blast
  have e: "a'' = a'" using u assms by simp
  have "isPeak (peaks a' cat) \<longrightarrow>
          peak_value (peaks a' cat) = smoothedEnergy a' cat \<and>
          js_gt (smoothedEnergy a' cat) (peakThreshold a)" for cat
    using p [rule_format, of cat] unfolding e by simp
  then show ?thesis using t e by blast
qed

lemma reachable_invariant:
  assumes "reachable a"
  shows "peakThreshold a = Fin 0.7 \<and>
         (\<forall>cat. isPeak (peaks a cat) \<longrightarrow>
            peak_value (peaks a cat) = smoothedEnergy a cat \<and>
            js_gt (smoothedEnergy a cat) (Fin 0.7))"
  using assms
proof (induction rule: reachable.induct)
  case (constructed fftSize0 smoothing0)
  then show ?case by (simp add: AudioAnalyzer_def)
next
  case (after_init a env a' ok)
  then show ?case using init_frame [OF after_init.hyps(2)] by simp
next
  case (after_startListening a env micStarts a' ok)
  then show ?case using startListening_frame [OF after_startListening.hyps(2)] by simp
next
  case (after_stopListening a)
  then show ?case using stopListening_frame [of a] by simp
next
  case (after_dispose a)
  then show ?case using dispose_frame [of a] by simp
next
  case (after_update a spectrum a')
  then show ?case using update_peaks [OF after_update.hyps(2)] by auto
qed

text \<open>
  Claim C9.  In every state the analyzer can reach from its constructed state (all peak
  values 0, no peak) by analysis cycles and lifecycle calls, for every category: if the
  published entry says \<open>isPeak\<close>, its peak value is the category's current smoothed
  energy, and that smoothed energy is strictly above the threshold 0.7.
\<close>

theorem isPeak_implies_value_is_smoothed_energy:
  assumes "reachable a"
  shows "isPeak (peaks a cat) \<longrightarrow>
           peak_value (peaks a cat) = smoothedEnergy a cat \<and>
           js_gt (smoothedEnergy a cat) (Fin 0.7)"
  using reachable_invariant [OF assms] by blast


lemma sum_nth_replicate:
  "u \<le> n \<Longrightarrow> (\<Sum>k = s..<u. replicate n (c::real) ! k) = real (u - s) * c"
proof -
  assume "u \<le> n"
  then have "(\<Sum>k = s..<u. replicate n c ! k) = (\<Sum>k = s..<u. c)"
    by (intro sum.cong) simp_all
  then show ?thesis by simp
qed

lemma update_track_drums:
  assumes "fft b" and "isListening b"
    and "getAverageEnergy b spectrum ''DRUMS_LOW'' = returns dl"
    and "getAverageEnergy b spectrum ''DRUMS_MID'' = returns dm"
    and "getAverageEnergy b spectrum ''DRUMS_HIGH'' = returns dh"
    and "getAverageEnergy b spectrum ''VOCALS_LOW'' = returns vl"
    and "getAverageEnergy b spectrum ''VOCALS_MID'' = returns vm"
    and "getAverageEnergy b spectrum ''VOCALS_HIGH'' = returns vh"
    and "getAverageEnergy b spectrum ''SUB_BASS'' = returns bs"
    and "getAverageEnergy b spectrum ''BASS'' = returns bm"
    and "getAverageEnergy b spectrum ''INSTRUMENTS_HIGH'' = returns hi"
    and "getAverageEnergy b spectrum ''AIR'' = returns ha"
    and v: "calculateWeightedEnergy [dl, dm, dh] (weights VisualizerGroups_DRUMS) = Fin v"
    and d: "peakDecay b = Fin 0.95" and t: "peakThreshold b = Fin 0.7"
    and s: "smoothedEnergy b Drums = Fin s" and p: "peak_value (peaks b Drums) = Fin p"
  shows "\<exists>b1. update b spectrum = returns b1 \<and>
           binRanges b1 = binRanges b \<and> fft b1 \<and> isListening b1 \<and>
           peakDecay b1 = Fin 0.95 \<and> peakThreshold b1 = Fin 0.7 \<and>
           smoothedEnergy b1 Drums = Fin (s + (v - s) * 0.3) \<and>
           peak_value (peaks b1 Drums) =
             Fin (if p * 0.95 < s + (v - s) * 0.3 \<and> 0.7 < s + (v - s) * 0.3
                  then s + (v - s) * 0.3 else p * 0.95) \<and>
           isPeak (peaks b1 Drums) =
             (p * 0.95 < s + (v - s) * 0.3 \<and> 0.7 < s + (v - s) * 0.3)"
proof -
  obtain b1 where u: "update b spectrum = returns b1"
    and w: "drums_combined (energyCache b1) =
             calculateWeightedEnergy [dl, dm, dh] (weights VisualizerGroups_DRUMS)"
    and sm: "\<forall>cat. smoothedEnergy b1 cat =
              js_add (smoothedEnergy b cat)
                (js_mul (js_sub (combined (energyCache b1) cat) (smoothedEnergy b cat)) (Fin 0.3))"
    and pk: "\<forall>cat. peaks b1 cat =
              (peaks b cat)\<lparr>peak_value :=
                 (if js_gt (smoothedEnergy b1 cat) (js_mul (peak_value (peaks b cat)) (peakDecay b)) \<and>
                     js_gt (smoothedEnergy b1 cat) (peakThreshold b)
                  then smoothedEnergy b1 cat
                  else js_mul (peak_value (peaks b cat)) (peakDecay b)),
               isPeak :=
                 (js_gt (smoothedEnergy b1 cat) (js_mul (peak_value (peaks b cat)) (peakDecay b)) \<and>
                  js_gt (smoothedEnergy b1 cat) (peakThreshold b))\<rparr>"
    and f: "binRanges b1 = binRanges b" "fft b1 = fft b" "isListening b1 = isListening b"
      "peakThreshold b1 = peakThreshold b" "peakDecay b1 = peakDecay b"
    using update_listening [OF assms(1-12)] by blast
  have s1: "smoothedEnergy b1 Drums = Fin (s + (v - s) * 0.3)"
    using sm [rule_format, of Drums] by (simp add: w v s)
  have p1: "peaks b1 Drums =
              (peaks b Drums)\<lparr>peak_value :=
                 Fin (if p * 0.95 < s + (v - s) * 0.3 \<and> 0.7 < s + (v - s) * 0.3
                      then s + (v - s) * 0.3 else p * 0.95),
               isPeak := (p * 0.95 < s + (v - s) * 0.3 \<and> 0.7 < s + (v - s) * 0.3)\<rparr>"
    using pk [rule_format, of Drums] by (simp add: s1 p d t)
  show ?thesis
    using u f s1 p1 assms(1,2) d t by (intro exI [of _ b1]) simp
qed


lemma replicate_4: "replicate 4 x = [x, x, x, x]"
  by (simp add: eval_nat_numeral)

lemma bin_ranges_44100_1024:
  "\<exists>ranges. calculateAllBinRanges (Fin 44100) (Fin 1024) = returns ranges \<and>
     ranges ''DRUMS_LOW'' = Some \<lparr>range_start = Fin (real 1), range_end = Fin (real 5)\<rparr> \<and>
     ranges ''DRUMS_MID'' = Some \<lparr>range_start = Fin (real 4), range_end = Fin (real 47)\<rparr> \<and>
     ranges ''DRUMS_HIGH'' = Some \<lparr>range_start = Fin (real 46), range_end = Fin (real 186)\<rparr> \<and>
     ranges ''VOCALS_LOW'' = Some \<lparr>range_start = Fin (real 1), range_end = Fin (real 7)\<rparr> \<and>
     ranges ''VOCALS_MID'' = Some \<lparr>range_start = Fin (real 6), range_end = Fin (real 47)\<rparr> \<and>
     ranges ''VOCALS_HIGH'' = Some \<lparr>range_start = Fin (real 46), range_end = Fin (real 186)\<rparr> \<and>
     ranges ''SUB_BASS'' = Some \<lparr>range_start = Fin (real 0), range_end = Fin (real 2)\<rparr> \<and>
     ranges ''BASS'' = Some \<lparr>range_start = Fin (real 1), range_end = Fin (real 6)\<rparr> \<and>
     ranges ''INSTRUMENTS_HIGH'' =
       Some \<lparr>range_start = Fin (real 46), range_end = Fin (real 140)\<rparr> \<and>
     ranges ''AIR'' = Some \<lparr>range_start = Fin (real 185), range_end = Fin (real 465)\<rparr>"
  by (simp add: calculateAllBinRanges_def FrequencyBands_def getBinRange_def)

lemma getAverageEnergy_full_scale:
  assumes "binRanges b = Some ranges"
    and "ranges bandName = Some \<lparr>range_start = Fin (real s), range_end = Fin (real e)\<rparr>"
    and "s < e" and "e \<le> n"
  shows "getAverageEnergy b (replicate n (Fin 255)) bandName = returns (Fin 1)"
proof -
  have m: "min e n = e" using assms(4) by simp
  show ?thesis
    using getAverageEnergy_nat [OF assms(1,2), of s e "replicate n 255"] assms(3,4)
    by (simp add: m sum_nth_replicate)
qed

theorem isPeak_implies_value_is_smoothed_energy_witness:
  "\<exists>a0 a.
     startListening (AudioAnalyzer (Fin 1024) (Fin 0.8)) (SampleRate (Fin 44100)) True =
       returns (a0, True) \<and>
     cycles a0 (replicate 4 (replicate 512 (Fin 255))) = returns a \<and>
     reachable a \<and> isPeak (peaks a Drums) \<and>
     peak_value (peaks a Drums) = smoothedEnergy a Drums \<and>
     js_gt (smoothedEnergy a Drums) (Fin 0.7)"
proof -
  let ?sp = "replicate 512 (Fin 255)"
  let ?A = "AudioAnalyzer (Fin 1024) (Fin 0.8)"
  obtain ranges where R: "calculateAllBinRanges (Fin 44100) (Fin 1024) = returns ranges"
    and r: "ranges ''DRUMS_LOW'' = Some \<lparr>range_start = Fin (real 1), range_end = Fin (real 5)\<rparr>"
      "ranges ''DRUMS_MID'' = Some \<lparr>range_start = Fin (real 4), range_end = Fin (real 47)\<rparr>"
      "ranges ''DRUMS_HIGH'' = Some \<lparr>range_start = Fin (real 46), range_end = Fin (real 186)\<rparr>"
      "ranges ''VOCALS_LOW'' = Some \<lparr>range_start = Fin (real 1), range_end = Fin (real 7)\<rparr>"
      "ranges ''VOCALS_MID'' = Some \<lparr>range_start = Fin (real 6), range_end = Fin (real 47)\<rparr>"
      "ranges ''VOCALS_HIGH'' = Some \<lparr>range_start = Fin (real 46), range_end = Fin (real 186)\<rparr>"
      "ranges ''SUB_BASS'' = Some \<lparr>range_start = Fin (real 0), range_end = Fin (real 2)\<rparr>"
      "ranges ''BASS'' = Some \<lparr>range_start = Fin (real 1), range_end = Fin (real 6)\<rparr>"
      "ranges ''INSTRUMENTS_HIGH'' =
         Some \<lparr>range_start = Fin (real 46), range_end = Fin (real 140)\<rparr>"
      "ranges ''AIR'' = Some \<lparr>range_start = Fin (real 185), range_end = Fin (real 465)\<rparr>"
    using bin_ranges_44100_1024 by blast
  let ?L = "?A\<lparr>fft := True, mic := True, binRanges := Some ranges, isInitialized := True,
               isListening := True\<rparr>"
  have start: "startListening ?A (SampleRate (Fin 44100)) True = returns (?L, True)"
    by (simp add: startListening_def init_def AudioAnalyzer_def R [unfolded returns_def] returns_def
        and_then_def)
  have g: "getAverageEnergy b ?sp ''DRUMS_LOW'' = returns (Fin 1)"
      "getAverageEnergy b ?sp ''DRUMS_MID'' = returns (Fin 1)"
      "getAverageEnergy b ?sp ''DRUMS_HIGH'' = returns (Fin 1)"
      "getAverageEnergy b ?sp ''VOCALS_LOW'' = returns (Fin 1)"
      "getAverageEnergy b ?sp ''VOCALS_MID'' = returns (Fin 1)"
      "getAverageEnergy b ?sp ''VOCALS_HIGH'' = returns (Fin 1)"
      "getAverageEnergy b ?sp ''SUB_BASS'' = returns (Fin 1)"
      "getAverageEnergy b ?sp ''BASS'' = returns (Fin 1)"
      "getAverageEnergy b ?sp ''INSTRUMENTS_HIGH'' = returns (Fin 1)"
      "getAverageEnergy b ?sp ''AIR'' = returns (Fin 1)"
    if "binRanges b = Some ranges" for b
    by (rule getAverageEnergy_full_scale [OF that], rule r, simp, simp)+
  have w: "calculateWeightedEnergy [Fin 1, Fin 1, Fin 1] (weights VisualizerGroups_DRUMS) = Fin 1"
    by (simp add: VisualizerGroups_DRUMS_def calculateWeightedEnergy_3)
  have L: "fft ?L" "isListening ?L" "binRanges ?L = Some ranges"
    "peakDecay ?L = Fin 0.95" "peakThreshold ?L = Fin 0.7"
    "smoothedEnergy ?L Drums = Fin 0" "peak_value (peaks ?L Drums) = Fin 0"
    by (simp_all add: AudioAnalyzer_def)
  obtain a1 where u1: "update ?L ?sp = returns a1"
    and a1: "binRanges a1 = Some ranges" "fft a1" "isListening a1"
      "peakDecay a1 = Fin 0.95" "peakThreshold a1 = Fin 0.7"
      "smoothedEnergy a1 Drums = Fin (3 / 10)" "peak_value (peaks a1 Drums) = Fin 0"
    using update_track_drums [OF L(1,2) g [OF L(3)] w L(4,5,6,7)] L(3) by auto
  obtain a2 where u2: "update a1 ?sp = returns a2"
    and a2: "binRanges a2 = Some ranges" "fft a2" "isListening a2"
      "peakDecay a2 = Fin 0.95" "peakThreshold a2 = Fin 0.7"
      "smoothedEnergy a2 Drums = Fin (51 / 100)" "peak_value (peaks a2 Drums) = Fin 0"
    using update_track_drums [OF a1(2,3) g [OF a1(1)] w a1(4,5,6,7)] a1(1) by auto
  obtain a3 where u3: "update a2 ?sp = returns a3"
    and a3: "binRanges a3 = Some ranges" "fft a3" "isListening a3"
      "peakDecay a3 = Fin 0.95" "peakThreshold a3 = Fin 0.7"
      "smoothedEnergy a3 Drums = Fin (657 / 1000)" "peak_value (peaks a3 Drums) = Fin 0"
    using update_track_drums [OF a2(2,3) g [OF a2(1)] w a2(4,5,6,7)] a2(1) by auto
  obtain a4 where u4: "update a3 ?sp = returns a4"
    and a4: "smoothedEnergy a4 Drums = Fin (7599 / 10000)" "isPeak (peaks a4 Drums)"
    using update_track_drums [OF a3(2,3) g [OF a3(1)] w a3(4,5,6,7)] by auto
  have c: "cycles ?L (replicate 4 ?sp) = returns a4"
    by (simp only: replicate_4 cycles.simps u1 u2 u3 u4 and_then_returns)
  have "reachable ?A" by (rule reachable.constructed)
  then have "reachable ?L" using start by (rule reachable.after_startListening)
  then have "reachable a1" using u1 by (rule reachable.after_update)
  then have "reachable a2" using u2 by (rule reachable.after_update)
  then have "reachable a3" using u3 by (rule reachable.after_update)
  then have re: "reachable a4" using u4 by (rule reachable.after_update)
  have "peak_value (peaks a4 Drums) = smoothedEnergy a4 Drums \<and>
        js_gt (smoothedEnergy a4 Drums) (Fin 0.7)"
    using isPeak_implies_value_is_smoothed_energy [OF re, of Drums] a4(2) by blast
  with start c re a4(2) show ?thesis by blast
qed

end
